theory Spec2Isabelle
  imports Main "HOL-Library.AList"
begin

section \<open>Socket.IO frame parser (socketParser.ts)\<close>

text \<open>
  Decoded JSON values. Numbers are integers in this protocol (card counts, hit points,
  damage); the few places where the JavaScript runtime would render a non-string value
  as text take that rendering as a parameter.
\<close>

datatype json =
    JNull
  | JBool bool
  | JNumber int
  | JString string
  | JArray "json list"
  | JObject "(string \<times> json) list"

datatype frame_type = Frame_event | Frame_ack | Frame_error | Frame_other

record socket_io_frame =
  frame_type :: frame_type
  frame_event :: "string option"
  frame_data :: "json list option"

definition EIO_MESSAGE :: char where "EIO_MESSAGE = CHR ''4''"
definition SIO_EVENT :: char where "SIO_EVENT = CHR ''2''"
definition SIO_ACK :: char where "SIO_ACK = CHR ''3''"

text \<open>\<open>s.startsWith(c)\<close> for a one-character string \<open>c\<close>.\<close>

definition startsWith :: "string \<Rightarrow> char \<Rightarrow> bool" where
  "startsWith s c = (case s of [] \<Rightarrow> False | x # _ \<Rightarrow> x = c)"

text \<open>\<open>s[i]\<close>: the character at an index, \<open>undefined\<close> (here \<open>None\<close>) out of range.\<close>

definition charAt :: "string \<Rightarrow> nat \<Rightarrow> char option" where
  "charAt s i = (if i < length s then Some (s ! i) else None)"

text \<open>\<open>s.indexOf(c)\<close>, with \<open>None\<close> for \<open>-1\<close>.\<close>

fun indexOf :: "string \<Rightarrow> char \<Rightarrow> nat option" where
  "indexOf [] c = None"
| "indexOf (x # xs) c = (if x = c then Some 0 else map_option Suc (indexOf xs c))"

definition isDigit :: "char \<Rightarrow> bool" where
  "isDigit c = (c \<in> set ''0123456789'')"

text \<open>
  \<open>body.replace(/^\d+(?=\[)/, '')\<close>: a non-empty run of leading digits is removed when
  the character after the run is an opening bracket. The run is maximal: a shorter run
  is followed by a digit, so the look-ahead fails for it.
\<close>

definition stripAckId :: "string \<Rightarrow> string" where
  "stripAckId body =
     (let digits = takeWhile isDigit body; rest = dropWhile isDigit body
      in if digits \<noteq> [] \<and> startsWith rest (CHR ''['') then rest else body)"

text \<open>
  The namespace prefix \<open>/name,\<close>: \<open>None\<close> is the early \<open>return null\<close> of a prefix
  with no comma.
\<close>

definition stripNamespace :: "string \<Rightarrow> string option" where
  "stripNamespace body =
     (if startsWith body (CHR ''/'') then
        (case indexOf body (CHR '','') of
           None \<Rightarrow> None
         | Some commaIdx \<Rightarrow> Some (drop (commaIdx + 1) body))
      else Some body)"

text \<open>
  \<open>String(event)\<close>: the text itself for a string. For any other decoded value the
  runtime's conversion is the parameter \<open>String_other\<close>, whose \<open>None\<close> is a thrown
  TypeError (an object with an own \<open>toString\<close> key). The first element of an empty
  array is \<open>undefined\<close>, which \<open>String\<close> renders as that word.
\<close>

definition js_String :: "(json \<Rightarrow> string option) \<Rightarrow> json option \<Rightarrow> string option" where
  "js_String String_other v =
     (case v of
        None \<Rightarrow> Some ''undefined''
      | Some (JString s) \<Rightarrow> Some s
      | Some other \<Rightarrow> String_other other)"

text \<open>
  \<open>parseFrame\<close>. The result \<open>None\<close> is the source's \<open>null\<close>. \<open>JSON.parse\<close> is the
  runtime's, a parameter whose \<open>None\<close> is a thrown SyntaxError; every exception raised
  inside the \<open>try\<close> block ends in \<open>return null\<close>.
\<close>

definition parseFrame ::
  "(string \<Rightarrow> json option) \<Rightarrow> (json \<Rightarrow> string option) \<Rightarrow> string \<Rightarrow> socket_io_frame option" where
  "parseFrame JSON_parse String_other raw =
     (if \<not> startsWith raw EIO_MESSAGE then None
      else
        let sioType = charAt raw 1 in
        if sioType \<noteq> Some SIO_EVENT \<and> sioType \<noteq> Some SIO_ACK then
          Some \<lparr>frame_type = Frame_other, frame_event = None, frame_data = None\<rparr>
        else
          (case stripNamespace (drop 2 raw) of
             None \<Rightarrow> None
           | Some body1 \<Rightarrow>
               let body = stripAckId body1 in
               if \<not> startsWith body (CHR ''['') then None
               else
                 (case JSON_parse body of
                    Some (JArray parsed) \<Rightarrow>
                      if sioType = Some SIO_EVENT then
                        (case js_String String_other (case parsed of [] \<Rightarrow> None | event # _ \<Rightarrow> Some event) of
                           None \<Rightarrow> None
                         | Some evStr \<Rightarrow>
                             Some \<lparr>frame_type = Frame_event, frame_event = Some evStr,
                                   frame_data = Some (tl parsed)\<rparr>)
                      else
                        Some \<lparr>frame_type = Frame_ack, frame_event = None,
                              frame_data = Some parsed\<rparr>
                  | _ \<Rightarrow> None)))"

section \<open>Data model (types.ts)\<close>

text \<open>
  Fields are the ones the modelled functions read, typed as \<open>types.ts\<close> declares them:
  a field marked optional there is an \<open>option\<close> here. Where the source guards a field
  that is declared always present (\<open>card.id ?? card.uuid\<close>, \<open>p.cardPiles.hand ?? []\<close>,
  \<open>p.numCardsInDeck ?? 0\<close>, \<open>!p0.cardPiles\<close>, \<open>p.leader?.id\<close>), the guard's fallback is
  not reachable for a value of the declared type and the model reads the field directly.
  Numbers are integers. Field names carry a prefix of their interface, since several
  interfaces share \<open>id\<close> and \<open>name\<close>.
\<close>

datatype phase_name = Setup | Action | Regroup

datatype swu_game_format = Premier | NextSetPreview | Open

record set_id =
  si_set :: string
  si_number :: int

record card_summary =
  cs_uuid :: string
  cs_id :: string
  cs_name :: "string option"
  cs_setId :: "set_id option"
  cs_damage :: "int option"
  cs_hp :: "int option"
  cs_aspects :: "string list option"

record card_piles =
  cp_hand :: "card_summary list"
  cp_resources :: "card_summary list"
  cp_groundArena :: "card_summary list"
  cp_spaceArena :: "card_summary list"
  cp_discard :: "card_summary list"
  cp_credits :: "card_summary list option"

record player_state_summary =
  ps_id :: string
  ps_name :: string
  ps_cardPiles :: card_piles
  ps_leader :: card_summary
  ps_base :: card_summary
  ps_numCardsInDeck :: int
  ps_availableResources :: int
  ps_hasInitiative :: bool

datatype chat_object_type = Player | Card

record chat_object =
  co_type :: chat_object_type
  co_id :: string
  co_name :: string

datatype chat_message_part = PartObject chat_object | PartString string | PartNumber int

datatype alert_type = Notification | Warning | Danger | ReadyStatus

text \<open>
  The three shapes of \<open>IChatEntry.message\<close>: an alert object, an array headed by a
  player-chat object, or a plain array of parts.
\<close>

datatype chat_message =
    AlertMessage alert_type "chat_message_part list"
  | PlayerChatMessage string string "chat_message_part list"
  | PartsMessage "chat_message_part list"

record chat_entry =
  ce_date :: string
  ce_message :: chat_message

text \<open>
  \<open>players\<close> is a \<open>Record<string, PlayerStateSummary>\<close>: an association list in the order
  \<open>Object.keys\<close> enumerates it, read by key with \<open>map_of\<close>. A JavaScript object holds a
  key once, so the keys of a state the code can receive are distinct.
\<close>

record game_state =
  gs_id :: string
  gs_playerUpdate :: string
  gs_players :: "(string \<times> player_state_summary) list"
  gs_phase :: phase_name
  gs_newMessages :: "chat_entry list"
  gs_gameMode :: swu_game_format
  gs_winners :: "string list"

datatype game_card_metric = Played | Resourced | Activated | Drawn | Discarded

record card_event =
  ev_gameId :: string
  ev_roundNumber :: int
  ev_playerId :: string
  ev_playerName :: string
  ev_cardId :: string
  ev_cardName :: string
  ev_cardSetId :: "set_id option"
  ev_metric :: game_card_metric
  ev_count :: int

definition Object_keys :: "(string \<times> 'v) list \<Rightarrow> string list" where
  "Object_keys obj = map fst obj"

text \<open>JavaScript truthiness of a string that may be \<open>null\<close> or \<open>undefined\<close>.\<close>

definition truthy :: "string option \<Rightarrow> bool" where
  "truthy v = (case v of None \<Rightarrow> False | Some s \<Rightarrow> s \<noteq> [])"

section \<open>Snapshot differencing (stateDiffer.ts)\<close>

definition uuidSet :: "card_summary list \<Rightarrow> string set" where
  "uuidSet cards = set (map cs_uuid cards)"

text \<open>
  \<open>byUuid\<close> builds a \<open>Map\<close>: entries stay in the order their keys were first set, and a
  later \<open>set\<close> of a key replaces its value in place, which is \<open>AList.update\<close>.
\<close>

definition byUuid :: "card_summary list \<Rightarrow> (string \<times> card_summary) list" where
  "byUuid cards = foldl (\<lambda>m c. AList.update (cs_uuid c) c m) [] cards"

definition Map_has :: "(string \<times> 'v) list \<Rightarrow> string \<Rightarrow> bool" where
  "Map_has m k = (k \<in> set (map fst m))"

definition cardLabel :: "card_summary \<Rightarrow> string" where
  "cardLabel c = (case cs_name c of Some n \<Rightarrow> n | None \<Rightarrow> cs_id c)"

definition allArena :: "player_state_summary \<Rightarrow> card_summary list" where
  "allArena p = cp_groundArena (ps_cardPiles p) @ cp_spaceArena (ps_cardPiles p)"

record diff_context =
  ctx_gameId :: string
  ctx_roundNumber :: int
  ctx_localPlayerId :: "string option"

text \<open>The event object the four identified-card branches push, for one card and metric.\<close>

definition cardEvent ::
  "diff_context \<Rightarrow> string \<Rightarrow> string \<Rightarrow> card_summary \<Rightarrow> game_card_metric \<Rightarrow> card_event" where
  "cardEvent ctx playerId playerName card' m =
     \<lparr>ev_gameId = ctx_gameId ctx, ev_roundNumber = ctx_roundNumber ctx,
      ev_playerId = playerId, ev_playerName = playerName,
      ev_cardId = cs_id card', ev_cardName = cardLabel card', ev_cardSetId = cs_setId card',
      ev_metric = m, ev_count = 1\<rparr>"

text \<open>
  A card event carries the card's type id, not the uuid of the instance it came from.
  To state properties per card instance, the model pairs every event it emits with the
  uuid the emitting loop iteration was looking at (\<open>None\<close> for the aggregate draw
  event); \<open>diffSnapshots\<close> below drops the uuids again and is the source's result.
\<close>

type_synonym traced_event = "string option \<times> card_event"

text \<open>
  One iteration of the PLAYED loop over \<open>leftHand\<close>; the state is the events pushed so
  far and the set \<open>playedFromHandToDiscard\<close>.
\<close>

definition playedStep ::
  "diff_context \<Rightarrow> string \<Rightarrow> string \<Rightarrow> string set \<Rightarrow> string set \<Rightarrow> string set \<Rightarrow> string set \<Rightarrow>
   string set \<Rightarrow> (string \<times> card_summary) list \<Rightarrow>
   traced_event list \<times> string set \<Rightarrow> string \<times> card_summary \<Rightarrow> traced_event list \<times> string set" where
  "playedStep ctx playerId playerName prevArena nextArena prevRes nextRes prevDiscard nextDiscard acc entry =
     (let (events, playedFromHandToDiscard) = acc; (uuid, card') = entry in
      if uuid \<notin> prevArena \<and> uuid \<in> nextArena then
        (events @ [(Some uuid, cardEvent ctx playerId playerName card' Played)],
         playedFromHandToDiscard)
      else if uuid \<notin> prevRes \<and> uuid \<in> nextRes then
        (events, playedFromHandToDiscard)
      else if Map_has nextDiscard uuid \<and> uuid \<notin> prevDiscard then
        (case map_of nextDiscard uuid of
           Some card2 \<Rightarrow>
             (events @ [(Some uuid, cardEvent ctx playerId playerName card2 Played)],
              insert uuid playedFromHandToDiscard)
         | None \<Rightarrow> (events, playedFromHandToDiscard))
      else (events, playedFromHandToDiscard))"

definition resourcedStep ::
  "diff_context \<Rightarrow> string \<Rightarrow> string \<Rightarrow> string set \<Rightarrow> string set \<Rightarrow>
   traced_event list \<Rightarrow> string \<times> card_summary \<Rightarrow> traced_event list" where
  "resourcedStep ctx playerId playerName prevRes nextRes events entry =
     (let (uuid, card') = entry in
      if uuid \<notin> prevRes \<and> uuid \<in> nextRes then
        events @ [(Some uuid, cardEvent ctx playerId playerName card' Resourced)]
      else events)"

definition discardedStep ::
  "diff_context \<Rightarrow> string \<Rightarrow> string \<Rightarrow> string set \<Rightarrow> string set \<Rightarrow>
   traced_event list \<Rightarrow> string \<times> card_summary \<Rightarrow> traced_event list" where
  "discardedStep ctx playerId playerName prevDiscard playedFromHandToDiscard events entry =
     (let (uuid, card') = entry in
      if uuid \<notin> prevDiscard \<and> uuid \<notin> playedFromHandToDiscard then
        events @ [(Some uuid, cardEvent ctx playerId playerName card' Discarded)]
      else events)"

text \<open>The DRAWN block: the events it pushes after \<open>events\<close>.\<close>

definition drawnEvents ::
  "diff_context \<Rightarrow> string \<Rightarrow> string \<Rightarrow> player_state_summary \<Rightarrow> player_state_summary \<Rightarrow>
   (string \<times> card_summary) list \<Rightarrow> traced_event list" where
  "drawnEvents ctx playerId playerName p0 p1 prevHand =
     (let deckDecrease = ps_numCardsInDeck p0 - ps_numCardsInDeck p1 in
      if deckDecrease > 0 then
        (let newInHand = filter (\<lambda>c. \<not> Map_has prevHand (cs_uuid c)) (cp_hand (ps_cardPiles p1)) in
         if length newInHand > 0 then
           map (\<lambda>card'. (Some (cs_uuid card'), cardEvent ctx playerId playerName card' Drawn)) newInHand
         else if deckDecrease > 0 then
           [(None,
             \<lparr>ev_gameId = ctx_gameId ctx, ev_roundNumber = ctx_roundNumber ctx,
              ev_playerId = playerId, ev_playerName = playerName,
              ev_cardId = ''__unknown__'', ev_cardName = ''(unknown)'', ev_cardSetId = None,
              ev_metric = Drawn, ev_count = deckDecrease\<rparr>)]
         else [])
      else [])"

text \<open>The body of the loop over players, for a player present in both snapshots.\<close>

definition diffPlayer ::
  "diff_context \<Rightarrow> string \<Rightarrow> player_state_summary \<Rightarrow> player_state_summary \<Rightarrow> traced_event list" where
  "diffPlayer ctx playerId p0 p1 =
     (let playerName = ps_name p1;
          prevHand = byUuid (cp_hand (ps_cardPiles p0));
          nextHand = uuidSet (cp_hand (ps_cardPiles p1));
          leftHand = filter (\<lambda>(uuid, card'). uuid \<notin> nextHand) prevHand;
          prevArena = uuidSet (allArena p0);
          nextArena = uuidSet (allArena p1);
          prevRes = uuidSet (cp_resources (ps_cardPiles p0));
          nextRes = uuidSet (cp_resources (ps_cardPiles p1));
          prevDiscard = uuidSet (cp_discard (ps_cardPiles p0));
          nextDiscard = byUuid (cp_discard (ps_cardPiles p1));
          (played, playedFromHandToDiscard) =
             foldl (playedStep ctx playerId playerName prevArena nextArena prevRes nextRes
                      prevDiscard nextDiscard) ([], {}) leftHand;
          resourced = foldl (resourcedStep ctx playerId playerName prevRes nextRes) played leftHand;
          discarded = foldl (discardedStep ctx playerId playerName prevDiscard playedFromHandToDiscard)
                        resourced nextDiscard
      in discarded @ drawnEvents ctx playerId playerName p0 p1 prevHand)"

text \<open>
  The loop over \<open>Object.keys(next.players)\<close>: a player is skipped when a local player id
  is given and is not this one, or when the player is missing from either snapshot.
\<close>

definition diffSnapshotsTraced :: "game_state \<Rightarrow> game_state \<Rightarrow> diff_context \<Rightarrow> traced_event list" where
  "diffSnapshotsTraced prev next ctx =
     concat (map (\<lambda>playerId.
       if truthy (ctx_localPlayerId ctx) \<and> Some playerId \<noteq> ctx_localPlayerId ctx then []
       else
         (case (map_of (gs_players prev) playerId, map_of (gs_players next) playerId) of
            (Some p0, Some p1) \<Rightarrow> diffPlayer ctx playerId p0 p1
          | _ \<Rightarrow> []))
       (Object_keys (gs_players next)))"

definition diffSnapshots :: "game_state \<Rightarrow> game_state \<Rightarrow> diff_context \<Rightarrow> card_event list" where
  "diffSnapshots prev next ctx = map snd (diffSnapshotsTraced prev next ctx)"

text \<open>
  Names for the values the body of the player loop binds, as functions of the player's
  two states: the entries of \<open>leftHand\<close>, what the PLAYED loop does for one entry
  (events and additions to \<open>playedFromHandToDiscard\<close>, from the empty state), the final
  \<open>playedFromHandToDiscard\<close>, and what the other two loops and the DRAWN block emit.
\<close>

definition leftHandOf :: "player_state_summary \<Rightarrow> player_state_summary \<Rightarrow> (string \<times> card_summary) list" where
  "leftHandOf p0 p1 =
     filter (\<lambda>(uuid, c). uuid \<notin> uuidSet (cp_hand (ps_cardPiles p1))) (byUuid (cp_hand (ps_cardPiles p0)))"

definition playedOf ::
  "diff_context \<Rightarrow> string \<Rightarrow> player_state_summary \<Rightarrow> player_state_summary \<Rightarrow>
   string \<times> card_summary \<Rightarrow> traced_event list \<times> string set" where
  "playedOf ctx pid p0 p1 entry =
     playedStep ctx pid (ps_name p1) (uuidSet (allArena p0)) (uuidSet (allArena p1))
       (uuidSet (cp_resources (ps_cardPiles p0))) (uuidSet (cp_resources (ps_cardPiles p1)))
       (uuidSet (cp_discard (ps_cardPiles p0))) (byUuid (cp_discard (ps_cardPiles p1))) ([], {}) entry"

definition playedToDiscardOf :: "diff_context \<Rightarrow> string \<Rightarrow> player_state_summary \<Rightarrow> player_state_summary \<Rightarrow> string set" where
  "playedToDiscardOf ctx pid p0 p1 = (\<Union>x\<in>set (leftHandOf p0 p1). snd (playedOf ctx pid p0 p1 x))"

definition resourcedOf ::
  "diff_context \<Rightarrow> string \<Rightarrow> player_state_summary \<Rightarrow> player_state_summary \<Rightarrow>
   string \<times> card_summary \<Rightarrow> traced_event list" where
  "resourcedOf ctx pid p0 p1 entry =
     resourcedStep ctx pid (ps_name p1)
       (uuidSet (cp_resources (ps_cardPiles p0))) (uuidSet (cp_resources (ps_cardPiles p1))) [] entry"

definition discardedOf ::
  "diff_context \<Rightarrow> string \<Rightarrow> player_state_summary \<Rightarrow> player_state_summary \<Rightarrow>
   string \<times> card_summary \<Rightarrow> traced_event list" where
  "discardedOf ctx pid p0 p1 entry =
     discardedStep ctx pid (ps_name p1) (uuidSet (cp_discard (ps_cardPiles p0)))
       (playedToDiscardOf ctx pid p0 p1) [] entry"

definition drawnOf ::
  "diff_context \<Rightarrow> string \<Rightarrow> player_state_summary \<Rightarrow> player_state_summary \<Rightarrow> traced_event list" where
  "drawnOf ctx pid p0 p1 = drawnEvents ctx pid (ps_name p1) p0 p1 (byUuid (cp_hand (ps_cardPiles p0)))"






section \<open>Log text extractor (logParser.ts)\<close>

text \<open>
  What one call takes from the JavaScript runtime: the two string conversions of the log
  parser and the two readings of the clock that \<open>ingest\<close> can make
  (\<open>new Date().toISOString()\<close> in \<open>captureSnapshot\<close> and in \<open>finalize\<close>).
\<close>

record js_env =
  env_toLowerCase :: "string \<Rightarrow> string"
  env_numberToString :: "int \<Rightarrow> string"
  env_capturedAt :: string
  env_completedAt :: string

definition ACTIVATION_KEYWORDS :: "string list" where
  "ACTIVATION_KEYWORDS = [''activated'', ''uses'', ''used'', ''ability'', ''epic action'']"

fun isAlertMessage :: "chat_message \<Rightarrow> bool" where
  "isAlertMessage (AlertMessage t parts) = True"
| "isAlertMessage (PlayerChatMessage i n parts) = False"
| "isAlertMessage (PartsMessage parts) = False"

fun isCardObject :: "chat_message_part \<Rightarrow> bool" where
  "isCardObject (PartObject obj) = (co_type obj = Card)"
| "isCardObject (PartString s) = False"
| "isCardObject (PartNumber n) = False"

fun isPlayerObject :: "chat_message_part \<Rightarrow> bool" where
  "isPlayerObject (PartObject obj) = (co_type obj = Player)"
| "isPlayerObject (PartString s) = False"
| "isPlayerObject (PartNumber n) = False"

text \<open>\<open>parts.join(' ')\<close>.\<close>

fun joinSpace :: "string list \<Rightarrow> string" where
  "joinSpace [] = []"
| "joinSpace [s] = s"
| "joinSpace (s # t # ss) = s @ '' '' @ joinSpace (t # ss)"

fun partText :: "js_env \<Rightarrow> chat_message_part \<Rightarrow> string" where
  "partText env (PartObject obj) = co_name obj"
| "partText env (PartString s) = s"
| "partText env (PartNumber n) = env_numberToString env n"

definition partsToText :: "js_env \<Rightarrow> chat_message_part list \<Rightarrow> string" where
  "partsToText env parts = env_toLowerCase env (joinSpace (map (partText env) parts))"

text \<open>\<open>text.includes(kw)\<close>: \<open>kw\<close> occurs at some offset of \<open>text\<close>.\<close>

definition includes_str :: "string \<Rightarrow> string \<Rightarrow> bool" where
  "includes_str txt kw = list_ex (\<lambda>i. take (length kw) (drop i txt) = kw) [0..<Suc (length txt)]"

text \<open>The part of \<open>parseLogEntries\<close>'s loop body for one entry: the events it pushes.\<close>

definition parseLogEntry :: "js_env \<Rightarrow> string \<Rightarrow> int \<Rightarrow> chat_entry \<Rightarrow> card_event list" where
  "parseLogEntry env gameId roundNumber entry =
     (case ce_message entry of
        AlertMessage t parts \<Rightarrow>
          (let txt = partsToText env parts;
               hasActivationKeyword = list_ex (\<lambda>kw. includes_str txt kw) ACTIVATION_KEYWORDS
           in if \<not> hasActivationKeyword then []
              else
                (case (find isPlayerObject parts, find isCardObject parts) of
                   (Some (PartObject playerRef), Some (PartObject cardRef)) \<Rightarrow>
                     [\<lparr>ev_gameId = gameId, ev_roundNumber = roundNumber,
                       ev_playerId = co_id playerRef, ev_playerName = co_name playerRef,
                       ev_cardId = co_id cardRef, ev_cardName = co_name cardRef,
                       ev_cardSetId = None, ev_metric = Activated, ev_count = 1\<rparr>]
                 | _ \<Rightarrow> []))
      | _ \<Rightarrow> [])"

definition parseLogEntries :: "js_env \<Rightarrow> string \<Rightarrow> int \<Rightarrow> chat_entry list \<Rightarrow> card_event list" where
  "parseLogEntries env gameId roundNumber entries =
     concat (map (parseLogEntry env gameId roundNumber) entries)"

section \<open>Session recorder (gameRecorder.ts)\<close>

record game_player =
  gp_id :: string
  gp_name :: string
  gp_leaderId :: string
  gp_leaderName :: string
  gp_leaderSetId :: "set_id option"
  gp_baseId :: string
  gp_baseName :: string
  gp_baseSetId :: "set_id option"
  gp_baseAspects :: "string list option"
  gp_deckSize :: int

record player_snapshot =
  snp_name :: string
  snp_hasInitiative :: bool
  snp_availableResources :: int
  snp_totalResources :: int
  snp_credits :: int
  snp_numCardsInDeck :: int
  snp_base :: card_summary
  snp_leader :: card_summary
  snp_groundArena :: "card_summary list"
  snp_spaceArena :: "card_summary list"
  snp_hand :: "card_summary list"
  snp_discard :: "card_summary list"

record base_hp_change =
  hp_youHp :: int
  hp_oppHp :: int

record round_snapshot =
  rs_round :: int
  rs_phase :: phase_name
  rs_capturedAt :: string
  rs_players :: "player_snapshot \<times> player_snapshot"
  rs_logEntries :: "chat_entry list"
  rs_baseHpChanges :: "base_hp_change list"

record game_record =
  gr_gameId :: string
  gr_startedAt :: string
  gr_completedAt :: string
  gr_format :: swu_game_format
  gr_isLimitedFormat :: bool
  gr_players :: "(game_player \<times> game_player) option"
  gr_winner :: "string option"
  gr_rounds :: int
  gr_cardEvents :: "card_event list"
  gr_rawLog :: "chat_entry list"
  gr_snapshots :: "round_snapshot list"

text \<open>
  The private fields of \<open>GameRecorder\<close>. The completion callback is not a field: the
  records \<open>ingest\<close> passes to it are part of \<open>ingest\<close>'s result.
\<close>

record recorder =
  rec_gameId :: string
  rec_startedAt :: string
  rec_prevState :: "game_state option"
  rec_cardEvents :: "card_event list"
  rec_rawLog :: "chat_entry list"
  rec_players :: "(game_player \<times> game_player) option"
  rec_isLimitedFormat :: bool
  rec_format :: swu_game_format
  rec_roundNumber :: int
  rec_completed :: bool
  rec_snapshots :: "round_snapshot list"
  rec_currentRoundLogs :: "chat_entry list"
  rec_currentRoundBaseHpChanges :: "base_hp_change list"
  rec_lastKnownYouHp :: "int option"
  rec_lastKnownOppHp :: "int option"
  rec_prevPhase :: "phase_name option"
  rec_localPlayerId :: "string option"

definition LIMITED_DECK_SIZE_THRESHOLD :: int where
  "LIMITED_DECK_SIZE_THRESHOLD = 35"

text \<open>The constructor; \<open>startedAt\<close> is the clock's reading at construction.\<close>

definition newGameRecorder :: "string \<Rightarrow> string \<Rightarrow> recorder" where
  "newGameRecorder gameId startedAt =
     \<lparr>rec_gameId = gameId, rec_startedAt = startedAt, rec_prevState = None,
      rec_cardEvents = [], rec_rawLog = [], rec_players = None, rec_isLimitedFormat = False,
      rec_format = Premier, rec_roundNumber = 0, rec_completed = False, rec_snapshots = [],
      rec_currentRoundLogs = [], rec_currentRoundBaseHpChanges = [],
      rec_lastKnownYouHp = None, rec_lastKnownOppHp = None, rec_prevPhase = None,
      rec_localPlayerId = None\<rparr>"

definition buildPlayer :: "string \<Rightarrow> player_state_summary \<Rightarrow> game_player" where
  "buildPlayer playerId p =
     \<lparr>gp_id = playerId, gp_name = ps_name p,
      gp_leaderId = cs_id (ps_leader p), gp_leaderName = cardLabel (ps_leader p),
      gp_leaderSetId = cs_setId (ps_leader p),
      gp_baseId = cs_id (ps_base p), gp_baseName = cardLabel (ps_base p),
      gp_baseSetId = cs_setId (ps_base p), gp_baseAspects = cs_aspects (ps_base p),
      gp_deckSize = ps_numCardsInDeck p\<rparr>"

text \<open>
  Local-player resolution: the first key that is the hint, or whose player's name or id
  is the hint. The field is assigned (to the key or to \<open>null\<close>) whenever it was falsy and
  the hint is truthy.
\<close>

definition resolveLocalPlayer :: "recorder \<Rightarrow> game_state \<Rightarrow> recorder" where
  "resolveLocalPlayer r state =
     (if \<not> truthy (rec_localPlayerId r) \<and> gs_playerUpdate state \<noteq> [] then
        r\<lparr>rec_localPlayerId :=
            find (\<lambda>k. k = gs_playerUpdate state \<or>
                      (case map_of (gs_players state) k of
                         Some p \<Rightarrow> ps_name p = gs_playerUpdate state \<or> ps_id p = gs_playerUpdate state
                       | None \<Rightarrow> False))
              (Object_keys (gs_players state))\<rparr>
      else r)"

text \<open>
  Player-pair capture. \<open>ids[0]\<close> and \<open>ids[1]\<close> are read under \<open>ids.length >= 2\<close>.
\<close>

definition capturePlayers :: "recorder \<Rightarrow> game_state \<Rightarrow> recorder" where
  "capturePlayers r state =
     (if rec_players r = None then
        (let ids = Object_keys (gs_players state) in
         if length ids \<ge> 2 then
           (let localId =
                  (if truthy (rec_localPlayerId r) \<and>
                      (case rec_localPlayerId r of
                         Some l \<Rightarrow> map_of (gs_players state) l \<noteq> None | None \<Rightarrow> False)
                   then (case rec_localPlayerId r of Some l \<Rightarrow> l | None \<Rightarrow> ids ! 0)
                   else ids ! 0);
                oppId = (case find (\<lambda>i. i \<noteq> localId) ids of Some i \<Rightarrow> i | None \<Rightarrow> ids ! 1)
            in case (map_of (gs_players state) localId, map_of (gs_players state) oppId) of
                 (Some localState, Some oppState) \<Rightarrow>
                   r\<lparr>rec_players := Some (buildPlayer localId localState, buildPlayer oppId oppState),
                     rec_isLimitedFormat :=
                       (min (ps_numCardsInDeck localState) (ps_numCardsInDeck oppState)
                          \<le> LIMITED_DECK_SIZE_THRESHOLD),
                     rec_format := gs_gameMode state\<rparr>
               | _ \<Rightarrow> r)
         else r)
      else r)"

text \<open>Log accumulation, with the activations parsed under round \<open>max(1, roundNumber)\<close>.\<close>

definition accumulateLogs :: "js_env \<Rightarrow> recorder \<Rightarrow> game_state \<Rightarrow> recorder" where
  "accumulateLogs env r state =
     (if length (gs_newMessages state) > 0 then
        r\<lparr>rec_rawLog := rec_rawLog r @ gs_newMessages state,
          rec_currentRoundLogs := rec_currentRoundLogs r @ gs_newMessages state,
          rec_cardEvents := rec_cardEvents r @
             parseLogEntries env (rec_gameId r) (max 1 (rec_roundNumber r)) (gs_newMessages state)\<rparr>
      else r)"

definition buildPlayerSnapshot :: "player_state_summary \<Rightarrow> player_snapshot" where
  "buildPlayerSnapshot ps =
     \<lparr>snp_name = ps_name ps, snp_hasInitiative = ps_hasInitiative ps,
      snp_availableResources = ps_availableResources ps,
      snp_totalResources = int (length (cp_resources (ps_cardPiles ps))),
      snp_credits = (case cp_credits (ps_cardPiles ps) of Some cr \<Rightarrow> int (length cr) | None \<Rightarrow> 0),
      snp_numCardsInDeck = ps_numCardsInDeck ps,
      snp_base = ps_base ps, snp_leader = ps_leader ps,
      snp_groundArena = cp_groundArena (ps_cardPiles ps),
      snp_spaceArena = cp_spaceArena (ps_cardPiles ps),
      snp_hand = cp_hand (ps_cardPiles ps), snp_discard = cp_discard (ps_cardPiles ps)\<rparr>"

definition captureSnapshot :: "js_env \<Rightarrow> recorder \<Rightarrow> game_state \<Rightarrow> int \<Rightarrow> round_snapshot option" where
  "captureSnapshot env r state round =
     (case rec_players r of
        None \<Rightarrow> None
      | Some (localPlayer, oppPlayer) \<Rightarrow>
          (case (map_of (gs_players state) (gp_id localPlayer),
                 map_of (gs_players state) (gp_id oppPlayer)) of
             (Some localState, Some oppState) \<Rightarrow>
               Some \<lparr>rs_round = round, rs_phase = gs_phase state,
                     rs_capturedAt = env_capturedAt env,
                     rs_players = (buildPlayerSnapshot localState, buildPlayerSnapshot oppState),
                     rs_logEntries = [], rs_baseHpChanges = []\<rparr>
           | _ \<Rightarrow> None))"

text \<open>\<open>Math.max(0, (s.base?.hp ?? 30) - (s.base?.damage ?? 0))\<close>.\<close>

definition baseHp :: "player_state_summary \<Rightarrow> int" where
  "baseHp s =
     max 0 ((case cs_hp (ps_base s) of Some h \<Rightarrow> h | None \<Rightarrow> 30)
            - (case cs_damage (ps_base s) of Some d \<Rightarrow> d | None \<Rightarrow> 0))"

text \<open>Assignment to a field of the last element of \<open>snapshots\<close>, which is not empty.\<close>

definition updateLast :: "('a \<Rightarrow> 'a) \<Rightarrow> 'a list \<Rightarrow> 'a list" where
  "updateLast f xs = (if xs = [] then xs else butlast xs @ [f (last xs)])"

text \<open>
  Round detection and mid-round base-HP sampling, up to and including the assignment
  \<open>this.prevPhase = state.phase\<close>.
\<close>

definition trackRound :: "js_env \<Rightarrow> recorder \<Rightarrow> game_state \<Rightarrow> recorder" where
  "trackRound env r state =
     (let prevPhase = rec_prevPhase r;
          r' =
            (if gs_phase state = Action \<and> prevPhase \<noteq> Some Action \<and> rec_players r \<noteq> None then
               (let r1 = r\<lparr>rec_snapshots :=
                             (if length (rec_snapshots r) > 0 then
                                updateLast (\<lambda>prev. prev\<lparr>rs_logEntries := rec_currentRoundLogs r,
                                                         rs_baseHpChanges := rec_currentRoundBaseHpChanges r\<rparr>)
                                  (rec_snapshots r)
                              else rec_snapshots r),
                           rec_currentRoundLogs := [],
                           rec_currentRoundBaseHpChanges := [],
                           rec_roundNumber := max (rec_roundNumber r + 1) 1\<rparr>
                in case captureSnapshot env r1 state (rec_roundNumber r1) of
                     None \<Rightarrow> r1
                   | Some snap \<Rightarrow>
                       (let r2 = r1\<lparr>rec_snapshots := rec_snapshots r1 @ [snap]\<rparr>
                        in case rec_players r2 of
                             None \<Rightarrow> r2
                           | Some (you, opp) \<Rightarrow>
                               r2\<lparr>rec_lastKnownYouHp :=
                                     map_option baseHp (map_of (gs_players state) (gp_id you)),
                                   rec_lastKnownOppHp :=
                                     map_option baseHp (map_of (gs_players state) (gp_id opp))\<rparr>))
             else if gs_phase state = Action \<and> prevPhase = Some Action \<and> rec_players r \<noteq> None then
               (case rec_players r of
                  None \<Rightarrow> r
                | Some (you, opp) \<Rightarrow>
                    (case (map_of (gs_players state) (gp_id you),
                           map_of (gs_players state) (gp_id opp)) of
                       (Some localState, Some oppState) \<Rightarrow>
                         (let youHp = baseHp localState; oppHp = baseHp oppState;
                              r1 = (if rec_lastKnownYouHp r \<noteq> None \<and>
                                       (Some youHp \<noteq> rec_lastKnownYouHp r \<or>
                                        Some oppHp \<noteq> rec_lastKnownOppHp r)
                                    then r\<lparr>rec_currentRoundBaseHpChanges :=
                                             rec_currentRoundBaseHpChanges r @
                                               [\<lparr>hp_youHp = youHp, hp_oppHp = oppHp\<rparr>]\<rparr>
                                    else r)
                          in r1\<lparr>rec_lastKnownYouHp := Some youHp, rec_lastKnownOppHp := Some oppHp\<rparr>)
                     | _ \<Rightarrow> r))
             else r)
      in r'\<lparr>rec_prevPhase := Some (gs_phase state)\<rparr>)"

text \<open>
  The diff against the previous snapshot, up to and including \<open>this.prevState = state\<close>.
  \<open>diffSnapshots\<close> raises no exception on values of the declared types, so the \<open>catch\<close>
  branch has no counterpart.
\<close>

definition diffContext :: "recorder \<Rightarrow> diff_context" where
  "diffContext r =
     \<lparr>ctx_gameId = rec_gameId r, ctx_roundNumber = rec_roundNumber r,
      ctx_localPlayerId = rec_localPlayerId r\<rparr>"

definition diffPrevious :: "recorder \<Rightarrow> game_state \<Rightarrow> recorder" where
  "diffPrevious r state =
     (let r' = (case rec_prevState r of
                  Some prev \<Rightarrow>
                    r\<lparr>rec_cardEvents := rec_cardEvents r @ diffSnapshots prev state (diffContext r)\<rparr>
                | None \<Rightarrow> r)
      in r'\<lparr>rec_prevState := Some state\<rparr>)"

text \<open>
  \<open>finalize\<close>: the recorder after it, and the record it hands to the completion
  callback. \<open>this.players!\<close> is a compile-time assertion only, so the record's
  \<open>players\<close> holds whatever the field holds; \<open>ingest\<close> calls \<open>finalize\<close> with the pair set.
\<close>

definition finalize :: "js_env \<Rightarrow> recorder \<Rightarrow> game_state \<Rightarrow> recorder \<times> game_record" where
  "finalize env r finalState =
     (let r1 = r\<lparr>rec_completed := True\<rparr>;
          r2 = (if length (rec_snapshots r1) > 0 then
                  r1\<lparr>rec_snapshots :=
                       updateLast (\<lambda>l.
                           (let l1 = (if length (rec_currentRoundLogs r1) > 0
                                      then l\<lparr>rs_logEntries := rs_logEntries l @ rec_currentRoundLogs r1\<rparr>
                                      else l)
                            in if length (rec_currentRoundBaseHpChanges r1) > 0
                               then l1\<lparr>rs_baseHpChanges :=
                                         rs_baseHpChanges l1 @ rec_currentRoundBaseHpChanges r1\<rparr>
                               else l1))
                         (rec_snapshots r1)\<rparr>
                else r1);
          winners = gs_winners finalState;
          winner = (if length winners = 1 then Some (winners ! 0) else None)
      in (r2,
          \<lparr>gr_gameId = rec_gameId r2, gr_startedAt = rec_startedAt r2,
           gr_completedAt = env_completedAt env, gr_format = rec_format r2,
           gr_isLimitedFormat = rec_isLimitedFormat r2,
           gr_players = rec_players r2,
           gr_winner = winner, gr_rounds = rec_roundNumber r2,
           gr_cardEvents = rec_cardEvents r2, gr_rawLog = rec_rawLog r2,
           gr_snapshots = rec_snapshots r2\<rparr>))"

text \<open>
  \<open>ingest\<close>. The result is the returned boolean, the records passed to the completion
  callback during the call, in order, and the recorder after the call.
\<close>

definition ingest :: "js_env \<Rightarrow> recorder \<Rightarrow> game_state \<Rightarrow> bool \<times> game_record list \<times> recorder" where
  "ingest env r state =
     (if rec_completed r then (True, [], r)
      else if gs_id state \<noteq> rec_gameId r then (False, [], r)
      else
        (let r1 = resolveLocalPlayer r state;
             r2 = capturePlayers r1 state;
             r3 = accumulateLogs env r2 state;
             r4 = trackRound env r3 state;
             r5 = diffPrevious r4 state
         in if length (gs_winners state) > 0 \<and> rec_players r5 \<noteq> None then
              (let (r6, record) = finalize env r5 state in (True, [record], r6))
            else (False, [], r5)))"

text \<open>
  A recorder's lifetime: a sequence of \<open>ingest\<close> calls, each with its snapshot and its
  environment. The result collects the records passed to the completion callback.
\<close>

fun ingestAll :: "recorder \<Rightarrow> (js_env \<times> game_state) list \<Rightarrow> game_record list \<times> recorder" where
  "ingestAll r [] = ([], r)"
| "ingestAll r ((env, state) # rest) =
     (case ingest env r state of
        (done, out, r') \<Rightarrow> (case ingestAll r' rest of (outs, r'') \<Rightarrow> (out @ outs, r'')))"

text \<open>
  The recorder as it stands at the game-end check of an \<open>ingest\<close> call that passed the
  two early returns.
\<close>

definition atGameEndCheck :: "js_env \<Rightarrow> recorder \<Rightarrow> game_state \<Rightarrow> recorder" where
  "atGameEndCheck env r state =
     diffPrevious (trackRound env (accumulateLogs env (capturePlayers (resolveLocalPlayer r state) state) state) state) state"

text \<open>
  The guard of the round-detection branch, as \<open>ingest\<close> evaluates it: the call is not
  cut short, the snapshot is in the action phase, the phase recorded before was not, and
  the player pair is set once the capture step of this call has run.
\<close>

definition entersAction :: "recorder \<Rightarrow> game_state \<Rightarrow> bool" where
  "entersAction r state =
     (\<not> rec_completed r \<and> gs_id state = rec_gameId r \<and>
      gs_phase state = Action \<and> rec_prevPhase r \<noteq> Some Action \<and>
      rec_players (capturePlayers (resolveLocalPlayer r state) state) \<noteq> None)"

text \<open>No call of a sequence of \<open>ingest\<close> calls takes the round-detection branch.\<close>

fun noRoundStarted :: "recorder \<Rightarrow> (js_env \<times> game_state) list \<Rightarrow> bool" where
  "noRoundStarted r [] = True"
| "noRoundStarted r ((env, state) # rest) =
     (\<not> entersAction r state \<and> noRoundStarted (snd (snd (ingest env r state))) rest)"

section \<open>Observations on event lists\<close>


definition drawnFor :: "string \<Rightarrow> card_event list \<Rightarrow> card_event list" where
  "drawnFor playerId evs = filter (\<lambda>e. ev_playerId e = playerId \<and> ev_metric e = Drawn) evs"

definition drawnTotal :: "string \<Rightarrow> card_event list \<Rightarrow> int" where
  "drawnTotal playerId evs = sum_list (map ev_count (drawnFor playerId evs))"

section \<open>Example values\<close>

text \<open>
  Small cards, piles, players and snapshots of the game \<open>g\<close>, used to instantiate the
  theorems below.
\<close>

definition exCard :: "string \<Rightarrow> string \<Rightarrow> card_summary" where
  "exCard u i = \<lparr>cs_uuid = u, cs_id = i, cs_name = None, cs_setId = None, cs_damage = None,
                 cs_hp = None, cs_aspects = None\<rparr>"

definition exPiles ::
  "card_summary list \<Rightarrow> card_summary list \<Rightarrow> card_summary list \<Rightarrow> card_summary list \<Rightarrow> card_piles" where
  "exPiles hand resources arena discard =
     \<lparr>cp_hand = hand, cp_resources = resources, cp_groundArena = arena, cp_spaceArena = [],
      cp_discard = discard, cp_credits = None\<rparr>"

definition exPlayer :: "string \<Rightarrow> string \<Rightarrow> card_piles \<Rightarrow> int \<Rightarrow> player_state_summary" where
  "exPlayer i n piles deck =
     \<lparr>ps_id = i, ps_name = n, ps_cardPiles = piles, ps_leader = exCard ''l'' ''leader'',
      ps_base = exCard ''b'' ''base'', ps_numCardsInDeck = deck, ps_availableResources = 0,
      ps_hasInitiative = False\<rparr>"

definition exState ::
  "string \<Rightarrow> (string \<times> player_state_summary) list \<Rightarrow> phase_name \<Rightarrow> string list \<Rightarrow> game_state" where
  "exState pu players phase winners =
     \<lparr>gs_id = ''g'', gs_playerUpdate = pu, gs_players = players, gs_phase = phase,
      gs_newMessages = [], gs_gameMode = Premier, gs_winners = winners\<rparr>"

definition exCtx :: diff_context where
  "exCtx = \<lparr>ctx_gameId = ''g'', ctx_roundNumber = 1, ctx_localPlayerId = None\<rparr>"

definition exHandPlayer :: player_state_summary where
  "exHandPlayer = exPlayer ''p1'' ''Alice'' (exPiles [exCard ''u1'' ''c1''] [] [] []) 40"

definition exArenaPlayer :: player_state_summary where
  "exArenaPlayer = exPlayer ''p1'' ''Alice'' (exPiles [] [] [exCard ''u1'' ''c1''] []) 40"

definition exEnv :: js_env where
  "exEnv = \<lparr>env_toLowerCase = (\<lambda>s. s), env_numberToString = (\<lambda>n. []),
            env_capturedAt = ''t1'', env_completedAt = ''t2''\<rparr>"

definition exOpponent :: player_state_summary where
  "exOpponent = exPlayer ''p2'' ''Bob'' (exPiles [] [] [] []) 40"

definition exTwoPlayers :: "(string \<times> player_state_summary) list" where
  "exTwoPlayers = [(''p1'', exHandPlayer), (''p2'', exOpponent)]"

definition exLonePlayer :: "(string \<times> player_state_summary) list" where
  "exLonePlayer = [(''p1'', exPlayer ''p1'' ''Alice'' (exPiles [] [] [] []) 40)]"

definition exLonePlayerDrew :: "(string \<times> player_state_summary) list" where
  "exLonePlayerDrew = [(''p1'', exPlayer ''p1'' ''Alice'' (exPiles [exCard ''u1'' ''c1''] [] [] []) 39)]"

section \<open>Properties of the frame parser\<close>

text \<open>
  C8. A frame that starts with the message digit and whose second character is neither
  the event digit nor the ack digit parses to the frame of type other: the result is
  never \<open>null\<close>, whatever follows and whatever the runtime's JSON decoder and string
  conversion do (the model has no exception outside them). A frame that consists of the
  message digit alone has no second character and parses to the same frame.
\<close>

theorem parseFrame_other:
  assumes "c \<noteq> CHR ''2''" and "c \<noteq> CHR ''3''"
  shows "parseFrame JSON_parse String_other (CHR ''4'' # c # rest) =
           Some \<lparr>frame_type = Frame_other, frame_event = None, frame_data = None\<rparr>
         \<and> parseFrame JSON_parse String_other [CHR ''4''] =
           Some \<lparr>frame_type = Frame_other, frame_event = None, frame_data = None\<rparr>"
  using assms
  by (simp add: parseFrame_def startsWith_def charAt_def EIO_MESSAGE_def SIO_EVENT_def SIO_ACK_def)

theorem parseFrame_other_witness:
  "parseFrame (\<lambda>s. None) (\<lambda>v. None) ''40{\"sid\":1}'' =
     Some \<lparr>frame_type = Frame_other, frame_event = None, frame_data = None\<rparr>
   \<and> parseFrame (\<lambda>s. Some (JArray [])) (\<lambda>v. None) ''41[]'' =
     Some \<lparr>frame_type = Frame_other, frame_event = None, frame_data = None\<rparr>"
  using parseFrame_other[of "CHR ''0''" "\<lambda>s. None" "\<lambda>v. None" "''{\"sid\":1}''"]
    parseFrame_other[of "CHR ''1''" "\<lambda>s. Some (JArray [])" "\<lambda>v. None" "''[]''"]
  by simp

lemma stripNamespace_bracket: "startsWith body (CHR ''['') \<Longrightarrow> stripNamespace body = Some body"
  by (cases body) (auto simp: stripNamespace_def startsWith_def)

lemma stripAckId_bracket: "startsWith body (CHR ''['') \<Longrightarrow> stripAckId body = body"
  by (cases body) (auto simp: stripAckId_def startsWith_def isDigit_def Let_def)

text \<open>
  C7. Round trip for event frames. \<open>body\<close> is the JSON text of the array \<open>[E, P]\<close>: it
  opens with a bracket, as every JSON array text that \<open>JSON.stringify\<close> writes does, and
  the runtime's \<open>JSON.parse\<close> decodes it to the array of the string \<open>E\<close> and the payload
  \<open>P\<close>. Then the frame \<open>42\<close> followed by \<open>body\<close> parses to the event \<open>E\<close> with data \<open>[P]\<close>:
  the parser strips neither a namespace nor an ack id from such a body and hands
  exactly \<open>body\<close> to the decoder.
\<close>

theorem parseFrame_event_roundtrip:
  assumes "startsWith body (CHR ''['')"
    and "JSON_parse body = Some (JArray [JString E, P])"
  shows "parseFrame JSON_parse String_other (''42'' @ body) =
           Some \<lparr>frame_type = Frame_event, frame_event = Some E, frame_data = Some [P]\<rparr>"
  using assms
  by (simp add: parseFrame_def stripNamespace_bracket stripAckId_bracket js_String_def
        charAt_def EIO_MESSAGE_def SIO_EVENT_def SIO_ACK_def)
     (simp add: startsWith_def)

theorem parseFrame_event_roundtrip_witness:
  "parseFrame (\<lambda>s. if s = ''[\"gamestate\",null]'' then Some (JArray [JString ''gamestate'', JNull]) else None)
      (\<lambda>v. None) ''42[\"gamestate\",null]'' =
     Some \<lparr>frame_type = Frame_event, frame_event = Some ''gamestate'', frame_data = Some [JNull]\<rparr>"
  using parseFrame_event_roundtrip[of "''[\"gamestate\",null]''"
      "\<lambda>s. if s = ''[\"gamestate\",null]'' then Some (JArray [JString ''gamestate'', JNull]) else None"
      "''gamestate''" JNull "\<lambda>v. None"]
  by (simp add: startsWith_def)

section \<open>Properties of the snapshot differencer\<close>

subsection \<open>The map built by \<open>byUuid\<close>\<close>

lemma fst_set_byUuid_aux:
  "fst ` set (foldl (\<lambda>m c. AList.update (cs_uuid c) c m) acc cards) = fst ` set acc \<union> cs_uuid ` set cards"
  by (induction cards arbitrary: acc) (auto simp: dom_update)

lemma keys_byUuid: "fst ` set (byUuid cards) = uuidSet cards"
  by (simp add: byUuid_def uuidSet_def fst_set_byUuid_aux)



lemma Map_has_byUuid: "Map_has (byUuid cards) u = (u \<in> uuidSet cards)"
  using keys_byUuid[of cards] by (simp add: Map_has_def)


lemma playedStep_acc:
  "playedStep ctx pid pn pA nA pR nR pD nD (ev, S) x =
     (ev @ fst (playedStep ctx pid pn pA nA pR nR pD nD ([], {}) x),
      S \<union> snd (playedStep ctx pid pn pA nA pR nR pD nD ([], {}) x))"
  by (cases x) (simp add: playedStep_def split: option.splits)

lemma playedStep_foldl:
  "foldl (playedStep ctx pid pn pA nA pR nR pD nD) (ev, S) xs =
     (ev @ concat (map (\<lambda>x. fst (playedStep ctx pid pn pA nA pR nR pD nD ([], {}) x)) xs),
      S \<union> (\<Union>x\<in>set xs. snd (playedStep ctx pid pn pA nA pR nR pD nD ([], {}) x)))"
proof (induction xs arbitrary: ev S)
  case Nil
  then show ?case by simp
next
  case (Cons x xs)
  show ?case
    by (simp only: foldl_Cons playedStep_acc[of _ _ _ _ _ _ _ _ _ ev S x] Cons.IH)
       (simp add: Un_assoc)
qed

lemma resourcedStep_acc:
  "resourcedStep ctx pid pn pR nR ev x = ev @ resourcedStep ctx pid pn pR nR [] x"
  by (cases x) (simp add: resourcedStep_def)

lemma resourcedStep_foldl:
  "foldl (resourcedStep ctx pid pn pR nR) ev xs =
     ev @ concat (map (resourcedStep ctx pid pn pR nR []) xs)"
proof (induction xs arbitrary: ev)
  case Nil
  then show ?case by simp
next
  case (Cons x xs)
  show ?case
    by (simp only: foldl_Cons resourcedStep_acc[of _ _ _ _ _ ev x] Cons.IH) simp
qed

lemma discardedStep_acc:
  "discardedStep ctx pid pn pD S ev x = ev @ discardedStep ctx pid pn pD S [] x"
  by (cases x) (simp add: discardedStep_def)

lemma discardedStep_foldl:
  "foldl (discardedStep ctx pid pn pD S) ev xs =
     ev @ concat (map (discardedStep ctx pid pn pD S []) xs)"
proof (induction xs arbitrary: ev)
  case Nil
  then show ?case by simp
next
  case (Cons x xs)
  show ?case
    by (simp only: foldl_Cons discardedStep_acc[of _ _ _ _ _ ev x] Cons.IH) simp
qed

lemma played_single:
  "fst (playedStep ctx pid pn pA nA pR nR pD nD ([], {}) (u, c)) =
     (if u \<notin> pA \<and> u \<in> nA then [(Some u, cardEvent ctx pid pn c Played)]
      else if u \<notin> pR \<and> u \<in> nR then []
      else if Map_has nD u \<and> u \<notin> pD then
        (case map_of nD u of Some c2 \<Rightarrow> [(Some u, cardEvent ctx pid pn c2 Played)] | None \<Rightarrow> [])
      else [])"
  by (simp add: playedStep_def split: option.splits)


lemma resourced_single:
  "resourcedStep ctx pid pn pR nR [] (u, c) =
     (if u \<notin> pR \<and> u \<in> nR then [(Some u, cardEvent ctx pid pn c Resourced)] else [])"
  by (simp add: resourcedStep_def)

lemma discarded_single:
  "discardedStep ctx pid pn pD S [] (u, c) =
     (if u \<notin> pD \<and> u \<notin> S then [(Some u, cardEvent ctx pid pn c Discarded)] else [])"
  by (simp add: discardedStep_def)

lemma diffPlayer_unfold:
  assumes "pn = ps_name p1"
    and "prevHand = byUuid (cp_hand (ps_cardPiles p0))"
    and "leftHand = filter (\<lambda>(uuid, c). uuid \<notin> uuidSet (cp_hand (ps_cardPiles p1))) prevHand"
    and "pA = uuidSet (allArena p0)" and "nA = uuidSet (allArena p1)"
    and "pR = uuidSet (cp_resources (ps_cardPiles p0))" and "nR = uuidSet (cp_resources (ps_cardPiles p1))"
    and "pD = uuidSet (cp_discard (ps_cardPiles p0))" and "nD = byUuid (cp_discard (ps_cardPiles p1))"
    and "S = (\<Union>x\<in>set leftHand. snd (playedStep ctx pid pn pA nA pR nR pD nD ([], {}) x))"
  shows "diffPlayer ctx pid p0 p1 =
     concat (map (\<lambda>x. fst (playedStep ctx pid pn pA nA pR nR pD nD ([], {}) x)) leftHand)
     @ concat (map (resourcedStep ctx pid pn pR nR []) leftHand)
     @ concat (map (discardedStep ctx pid pn pD S []) nD)
     @ drawnEvents ctx pid pn p0 p1 prevHand"
  unfolding assms diffPlayer_def Let_def playedStep_foldl resourcedStep_foldl discardedStep_foldl prod.case
  by (simp only: append_Nil Un_empty_left append_assoc)

lemma drawnEvents_metric:
  "(t, e) \<in> set (drawnEvents ctx pid pn p0 p1 ph) \<Longrightarrow> ev_metric e = Drawn \<and> ev_playerId e = pid"
  by (auto simp: drawnEvents_def Let_def cardEvent_def split: if_splits)

lemma played_single_mem:
  "(t, e) \<in> set (fst (playedStep ctx pid pn pA nA pR nR pD nD ([], {}) (u, c))) \<Longrightarrow>
     t = Some u \<and> ev_playerId e = pid \<and> ev_metric e = Played"
  unfolding played_single
  by (cases "u \<notin> pA \<and> u \<in> nA"; cases "u \<notin> pR \<and> u \<in> nR"; cases "Map_has nD u \<and> u \<notin> pD";
      cases "map_of nD u") (simp_all add: cardEvent_def)

lemma resourced_single_mem:
  "(t, e) \<in> set (resourcedStep ctx pid pn pR nR [] (u, c)) \<Longrightarrow>
     t = Some u \<and> ev_playerId e = pid \<and> ev_metric e = Resourced \<and> u \<notin> pR \<and> u \<in> nR"
  by (auto simp: resourced_single cardEvent_def split: if_splits)

lemma discarded_single_mem:
  "(t, e) \<in> set (discardedStep ctx pid pn pD S [] (u, c)) \<Longrightarrow>
     t = Some u \<and> ev_playerId e = pid \<and> ev_metric e = Discarded \<and> u \<notin> pD \<and> u \<notin> S"
  by (auto simp: discarded_single cardEvent_def split: if_splits)

lemma diffPlayer_mem:
  assumes "(t, e) \<in> set (diffPlayer ctx pid p0 p1)"
  shows "ev_playerId e = pid"
    and "ev_metric e = Drawn \<Longrightarrow>
           (t, e) \<in> set (drawnEvents ctx pid (ps_name p1) p0 p1 (byUuid (cp_hand (ps_cardPiles p0))))"
proof -
  note eq = diffPlayer_unfold[OF refl refl refl refl refl refl refl refl refl refl, of ctx pid p0 p1]
  from assms have cases:
    "(\<exists>x. (t, e) \<in> set (fst (playedStep ctx pid (ps_name p1) (uuidSet (allArena p0)) (uuidSet (allArena p1))
              (uuidSet (cp_resources (ps_cardPiles p0))) (uuidSet (cp_resources (ps_cardPiles p1)))
              (uuidSet (cp_discard (ps_cardPiles p0))) (byUuid (cp_discard (ps_cardPiles p1))) ([], {}) x)))
     \<or> (\<exists>x. (t, e) \<in> set (resourcedStep ctx pid (ps_name p1)
              (uuidSet (cp_resources (ps_cardPiles p0))) (uuidSet (cp_resources (ps_cardPiles p1))) [] x))
     \<or> (\<exists>x S. (t, e) \<in> set (discardedStep ctx pid (ps_name p1) (uuidSet (cp_discard (ps_cardPiles p0))) S [] x))
     \<or> (t, e) \<in> set (drawnEvents ctx pid (ps_name p1) p0 p1 (byUuid (cp_hand (ps_cardPiles p0))))"
    unfolding eq set_append set_concat set_map Un_iff by blast
  show "ev_playerId e = pid"
    using cases played_single_mem resourced_single_mem discarded_single_mem drawnEvents_metric
    by (metis surj_pair)
  show "ev_metric e = Drawn \<Longrightarrow>
           (t, e) \<in> set (drawnEvents ctx pid (ps_name p1) p0 p1 (byUuid (cp_hand (ps_cardPiles p0))))"
    using cases played_single_mem resourced_single_mem discarded_single_mem
    by (metis surj_pair game_card_metric.distinct)
qed

lemmas ex_defs = exCard_def exPiles_def exPlayer_def exState_def exCtx_def

lemma diffSnapshotsTraced_mem:
  assumes "(t, e) \<in> set (diffSnapshotsTraced prev next ctx)"
  shows "\<exists>k p0 p1. map_of (gs_players prev) k = Some p0 \<and> map_of (gs_players next) k = Some p1 \<and>
           (t, e) \<in> set (diffPlayer ctx k p0 p1)"
  using assms unfolding diffSnapshotsTraced_def
  by (auto split: if_splits option.splits) metis+

subsection \<open>The events of one card instance\<close>

lemma diffPlayer_parts:
  "diffPlayer ctx pid p0 p1 =
     concat (map (\<lambda>x. fst (playedOf ctx pid p0 p1 x)) (leftHandOf p0 p1))
     @ concat (map (resourcedOf ctx pid p0 p1) (leftHandOf p0 p1))
     @ concat (map (discardedOf ctx pid p0 p1) (byUuid (cp_discard (ps_cardPiles p1))))
     @ drawnOf ctx pid p0 p1"
  unfolding playedOf_def[abs_def] resourcedOf_def[abs_def] discardedOf_def[abs_def] drawnOf_def
    playedToDiscardOf_def leftHandOf_def
  by (rule diffPlayer_unfold[OF refl refl refl refl refl refl refl refl refl refl])












lemma concat_map_all_Nil: "(\<And>x. x \<in> set xs \<Longrightarrow> F x = []) \<Longrightarrow> concat (map F xs) = []"
  by (induction xs) auto

lemma concat_map_single:
  assumes "distinct xs" and "a \<in> set xs" and "\<And>x. x \<in> set xs \<Longrightarrow> x \<noteq> a \<Longrightarrow> F x = []"
  shows "concat (map F xs) = F a"
  using assms
proof (induction xs)
  case Nil
  then show ?case by simp
next
  case (Cons x xs)
  show ?case
  proof (cases "x = a")
    case True
    have "a \<notin> set xs" using Cons.prems(1) True by simp
    then have "concat (map F xs) = []"
      using Cons.prems(3) by (intro concat_map_all_Nil) auto
    then show ?thesis using True by simp
  next
    case False
    then have "F x = []" using Cons.prems(3) by simp
    moreover have "concat (map F xs) = F a"
      using Cons.IH Cons.prems False by auto
    ultimately show ?thesis by simp
  qed
qed











lemma cardEvent_sel:
  "ev_playerId (cardEvent ctx pid pn c m) = pid" "ev_metric (cardEvent ctx pid pn c m) = m"
  by (simp_all add: cardEvent_def)





lemmas ex2_defs = exHandPlayer_def exArenaPlayer_def ex_defs





text \<open>
  C9. A player present in both snapshots whose deck count did not strictly decrease
  gets no drawn event from the diff, whatever appeared in the player's hand.
\<close>

theorem no_drawn_without_deck_decrease:
  assumes "map_of (gs_players prev) pid = Some p0"
    and "map_of (gs_players next) pid = Some p1"
    and "ps_numCardsInDeck p0 \<le> ps_numCardsInDeck p1"
  shows "drawnFor pid (diffSnapshots prev next ctx) = []"
proof -
  have "\<not> (ev_playerId e = pid \<and> ev_metric e = Drawn)" if "e \<in> set (diffSnapshots prev next ctx)" for e
  proof
    assume pm: "ev_playerId e = pid \<and> ev_metric e = Drawn"
    from that obtain t where "(t, e) \<in> set (diffSnapshotsTraced prev next ctx)"
      by (auto simp: diffSnapshots_def)
    then obtain k q0 q1 where k: "map_of (gs_players prev) k = Some q0"
      "map_of (gs_players next) k = Some q1" "(t, e) \<in> set (diffPlayer ctx k q0 q1)"
      using diffSnapshotsTraced_mem by blast
    have "k = pid" using diffPlayer_mem(1)[OF k(3)] pm by simp
    then have "q0 = p0" "q1 = p1" using k assms by simp_all
    then have "(t, e) \<in> set (drawnEvents ctx pid (ps_name p1) p0 p1 (byUuid (cp_hand (ps_cardPiles p0))))"
      using diffPlayer_mem(2)[OF k(3)] pm \<open>k = pid\<close> by simp
    moreover have "drawnEvents ctx pid (ps_name p1) p0 p1 (byUuid (cp_hand (ps_cardPiles p0))) = []"
      using assms(3) by (simp add: drawnEvents_def)
    ultimately show False by simp
  qed
  then show ?thesis by (simp add: drawnFor_def filter_empty_conv)
qed

theorem no_drawn_without_deck_decrease_witness:
  "drawnFor ''p1''
     (diffSnapshots
        (exState [] [(''p1'', exPlayer ''p1'' ''Alice'' (exPiles [] [] [] [exCard ''u1'' ''c1'']) 40)] Action [])
        (exState [] [(''p1'', exPlayer ''p1'' ''Alice'' (exPiles [exCard ''u1'' ''c1''] [] [] []) 40)] Action [])
        exCtx) = []"
  using no_drawn_without_deck_decrease[of
      "exState [] [(''p1'', exPlayer ''p1'' ''Alice'' (exPiles [] [] [] [exCard ''u1'' ''c1'']) 40)] Action []"
      "''p1''" "exPlayer ''p1'' ''Alice'' (exPiles [] [] [] [exCard ''u1'' ''c1'']) 40"
      "exState [] [(''p1'', exPlayer ''p1'' ''Alice'' (exPiles [exCard ''u1'' ''c1''] [] [] []) 40)] Action []"
      "exPlayer ''p1'' ''Alice'' (exPiles [exCard ''u1'' ''c1''] [] [] []) 40" exCtx]
  by (simp add: ex_defs)

subsection \<open>The draw events of one player\<close>

lemma drawnFor_traced:
  "drawnFor pid (map snd T) = map snd (filter (\<lambda>(t, e). ev_playerId e = pid \<and> ev_metric e = Drawn) T)"
  by (simp add: drawnFor_def filter_map comp_def case_prod_unfold)

lemma filter_concat_map_Nil:
  "(\<And>x y. x \<in> set xs \<Longrightarrow> y \<in> set (F x) \<Longrightarrow> \<not> P y) \<Longrightarrow> filter P (concat (map F xs)) = []"
  by (induction xs) (auto simp: filter_empty_conv)

lemma drawn_filter_diffPlayer:
  "filter (\<lambda>(t, e). ev_playerId e = pid \<and> ev_metric e = Drawn) (diffPlayer ctx pid p0 p1) = drawnOf ctx pid p0 p1"
proof -
  let ?P = "\<lambda>(t, e). ev_playerId e = pid \<and> ev_metric e = Drawn"
  have 1: "filter ?P (concat (map (\<lambda>x. fst (playedOf ctx pid p0 p1 x)) (leftHandOf p0 p1))) = []"
    by (rule filter_concat_map_Nil) (use played_single_mem in \<open>fastforce simp: playedOf_def\<close>)
  have 2: "filter ?P (concat (map (resourcedOf ctx pid p0 p1) (leftHandOf p0 p1))) = []"
    by (rule filter_concat_map_Nil) (use resourced_single_mem in \<open>fastforce simp: resourcedOf_def\<close>)
  have 3: "filter ?P (concat (map (discardedOf ctx pid p0 p1) (byUuid (cp_discard (ps_cardPiles p1))))) = []"
    by (rule filter_concat_map_Nil) (use discarded_single_mem in \<open>fastforce simp: discardedOf_def\<close>)
  have 4: "filter ?P (drawnOf ctx pid p0 p1) = drawnOf ctx pid p0 p1"
    unfolding drawnOf_def using drawnEvents_metric by (intro filter_True) fastforce
  show ?thesis unfolding diffPlayer_parts filter_append 1 2 3 4 by simp
qed

lemma drawn_filter_diffSnapshotsTraced:
  assumes "distinct (Object_keys (gs_players next))"
    and "map_of (gs_players prev) pid = Some p0"
    and "map_of (gs_players next) pid = Some p1"
    and "\<not> truthy (ctx_localPlayerId ctx) \<or> ctx_localPlayerId ctx = Some pid"
  shows "filter (\<lambda>(t, e). ev_playerId e = pid \<and> ev_metric e = Drawn) (diffSnapshotsTraced prev next ctx)
           = drawnOf ctx pid p0 p1"
proof -
  let ?P = "\<lambda>(t, e). ev_playerId e = pid \<and> ev_metric e = Drawn"
  let ?g = "\<lambda>playerId.
       if truthy (ctx_localPlayerId ctx) \<and> Some playerId \<noteq> ctx_localPlayerId ctx then []
       else
         (case (map_of (gs_players prev) playerId, map_of (gs_players next) playerId) of
            (Some p0, Some p1) \<Rightarrow> diffPlayer ctx playerId p0 p1
          | _ \<Rightarrow> [])"
  have mem: "pid \<in> set (Object_keys (gs_players next))"
    using assms(3) by (metis Object_keys_def map_of_SomeD fst_conv image_eqI set_map)
  have other: "filter ?P (?g k) = []" if "k \<noteq> pid" for k
  proof -
    have "ev_playerId e = k" if "(t, e) \<in> set (?g k)" for t e
      using that diffPlayer_mem(1) by (auto split: if_splits option.splits)
    then show ?thesis using that by (auto simp: filter_empty_conv)
  qed
  have "filter ?P (diffSnapshotsTraced prev next ctx) =
          concat (map (\<lambda>k. filter ?P (?g k)) (Object_keys (gs_players next)))"
    unfolding diffSnapshotsTraced_def by (simp add: filter_concat comp_def)
  also have "\<dots> = filter ?P (?g pid)"
    using assms(1) mem other by (intro concat_map_single) auto
  also have "?g pid = diffPlayer ctx pid p0 p1"
    using assms(2,3,4) by auto
  finally show ?thesis by (simp add: drawn_filter_diffPlayer)
qed

text \<open>
  What the DRAWN block adds up to, for a diffed player present in both snapshots: nothing
  when the deck did not shrink; the deck decrease when no hand card of the next
  snapshot is new; and otherwise the number of new hand cards, whatever the decrease.
\<close>

lemma drawn_total_is_hand_or_deck_count:
  assumes "distinct (Object_keys (gs_players next))"
    and "map_of (gs_players prev) pid = Some p0"
    and "map_of (gs_players next) pid = Some p1"
    and "\<not> truthy (ctx_localPlayerId ctx) \<or> ctx_localPlayerId ctx = Some pid"
  shows "drawnTotal pid (diffSnapshots prev next ctx) =
           (let deckDecrease = ps_numCardsInDeck p0 - ps_numCardsInDeck p1;
                newInHand = filter (\<lambda>c. cs_uuid c \<notin> uuidSet (cp_hand (ps_cardPiles p0)))
                              (cp_hand (ps_cardPiles p1))
            in if deckDecrease \<le> 0 then 0
               else if newInHand = [] then deckDecrease
               else int (length newInHand))"
proof -
  have "drawnFor pid (diffSnapshots prev next ctx) = map snd (drawnOf ctx pid p0 p1)"
    unfolding diffSnapshots_def drawnFor_traced drawn_filter_diffSnapshotsTraced[OF assms] ..
  then have "drawnTotal pid (diffSnapshots prev next ctx) =
               sum_list (map (\<lambda>x. ev_count (snd x)) (drawnOf ctx pid p0 p1))"
    by (simp add: drawnTotal_def comp_def)
  also have "\<dots> = (let deckDecrease = ps_numCardsInDeck p0 - ps_numCardsInDeck p1;
                newInHand = filter (\<lambda>c. cs_uuid c \<notin> uuidSet (cp_hand (ps_cardPiles p0)))
                              (cp_hand (ps_cardPiles p1))
            in if deckDecrease \<le> 0 then 0
               else if newInHand = [] then deckDecrease
               else int (length newInHand))"
    by (simp add: drawnOf_def drawnEvents_def Let_def Map_has_byUuid cardEvent_def comp_def
          sum_list_triv)
  finally show ?thesis .
qed

text \<open>
  C1. The drawn events of a diff do not always add up to the deck decrease. The deck of
  player \<open>p1\<close> drops from 40 to 38 and one new card instance \<open>u1\<close> is in the hand: the
  identified-card branch emits one event per new hand card and does not read the size
  of the decrease, so the counts add up to 1, not 2.
\<close>

theorem drawn_total_identified_branch:
  "drawnTotal ''p1''
     (diffSnapshots
        (exState [] [(''p1'', exPlayer ''p1'' ''Alice'' (exPiles [] [] [] []) 40)] Action [])
        (exState [] [(''p1'', exPlayer ''p1'' ''Alice'' (exPiles [exCard ''u1'' ''c1''] [] [] []) 38)] Action [])
        exCtx) = 1
   \<and> ps_numCardsInDeck (exPlayer ''p1'' ''Alice'' (exPiles [] [] [] []) 40)
       - ps_numCardsInDeck (exPlayer ''p1'' ''Alice'' (exPiles [exCard ''u1'' ''c1''] [] [] []) 38) = 2"
  by code_simp

section \<open>Properties of the session recorder\<close>

subsection \<open>What each step of \<open>ingest\<close> changes\<close>

lemma resolveLocalPlayer_fields:
  "rec_completed (resolveLocalPlayer r s) = rec_completed r"
  "rec_gameId (resolveLocalPlayer r s) = rec_gameId r"
  "rec_players (resolveLocalPlayer r s) = rec_players r"
  "rec_roundNumber (resolveLocalPlayer r s) = rec_roundNumber r"
  "rec_snapshots (resolveLocalPlayer r s) = rec_snapshots r"
  "rec_prevPhase (resolveLocalPlayer r s) = rec_prevPhase r"
  "rec_cardEvents (resolveLocalPlayer r s) = rec_cardEvents r"
  "rec_prevState (resolveLocalPlayer r s) = rec_prevState r"
  by (simp_all add: resolveLocalPlayer_def)

lemma capturePlayers_fields:
  "rec_completed (capturePlayers r s) = rec_completed r"
  "rec_gameId (capturePlayers r s) = rec_gameId r"
  "rec_roundNumber (capturePlayers r s) = rec_roundNumber r"
  "rec_snapshots (capturePlayers r s) = rec_snapshots r"
  "rec_prevPhase (capturePlayers r s) = rec_prevPhase r"
  "rec_cardEvents (capturePlayers r s) = rec_cardEvents r"
  "rec_prevState (capturePlayers r s) = rec_prevState r"
  "rec_localPlayerId (capturePlayers r s) = rec_localPlayerId r"
  by (simp_all add: capturePlayers_def Let_def split: option.splits)

lemma accumulateLogs_fields:
  "rec_completed (accumulateLogs env r s) = rec_completed r"
  "rec_gameId (accumulateLogs env r s) = rec_gameId r"
  "rec_players (accumulateLogs env r s) = rec_players r"
  "rec_roundNumber (accumulateLogs env r s) = rec_roundNumber r"
  "rec_snapshots (accumulateLogs env r s) = rec_snapshots r"
  "rec_prevPhase (accumulateLogs env r s) = rec_prevPhase r"
  "rec_prevState (accumulateLogs env r s) = rec_prevState r"
  "rec_localPlayerId (accumulateLogs env r s) = rec_localPlayerId r"
  by (simp_all add: accumulateLogs_def)

lemma parseLogEntries_Nil: "parseLogEntries env g n [] = []"
  by (simp add: parseLogEntries_def)

lemma accumulateLogs_cardEvents:
  "rec_cardEvents (accumulateLogs env r s) =
     rec_cardEvents r @ parseLogEntries env (rec_gameId r) (max 1 (rec_roundNumber r)) (gs_newMessages s)"
  by (simp add: accumulateLogs_def parseLogEntries_Nil)

lemma trackRound_fields:
  "rec_completed (trackRound env r s) = rec_completed r"
  "rec_gameId (trackRound env r s) = rec_gameId r"
  "rec_players (trackRound env r s) = rec_players r"
  "rec_cardEvents (trackRound env r s) = rec_cardEvents r"
  "rec_prevState (trackRound env r s) = rec_prevState r"
  "rec_localPlayerId (trackRound env r s) = rec_localPlayerId r"
  "rec_prevPhase (trackRound env r s) = Some (gs_phase s)"
  by (simp_all add: trackRound_def Let_def split: option.splits prod.splits)

lemma trackRound_roundNumber:
  "rec_roundNumber (trackRound env r s) =
     (if gs_phase s = Action \<and> rec_prevPhase r \<noteq> Some Action \<and> rec_players r \<noteq> None
      then max (rec_roundNumber r + 1) 1 else rec_roundNumber r)"
  by (simp add: trackRound_def Let_def split: option.splits prod.splits)

lemma trackRound_snapshots_unchanged:
  "\<not> (gs_phase s = Action \<and> rec_prevPhase r \<noteq> Some Action \<and> rec_players r \<noteq> None) \<Longrightarrow>
     rec_snapshots (trackRound env r s) = rec_snapshots r"
  unfolding trackRound_def Let_def
  by (simp only: if_not_P) (simp split: option.splits prod.splits)

lemma diffPrevious_fields:
  "rec_completed (diffPrevious r s) = rec_completed r"
  "rec_gameId (diffPrevious r s) = rec_gameId r"
  "rec_players (diffPrevious r s) = rec_players r"
  "rec_roundNumber (diffPrevious r s) = rec_roundNumber r"
  "rec_snapshots (diffPrevious r s) = rec_snapshots r"
  "rec_prevPhase (diffPrevious r s) = rec_prevPhase r"
  "rec_localPlayerId (diffPrevious r s) = rec_localPlayerId r"
  "rec_prevState (diffPrevious r s) = Some s"
  by (simp_all add: diffPrevious_def Let_def split: option.splits)

lemma diffPrevious_cardEvents:
  "rec_cardEvents (diffPrevious r s) =
     rec_cardEvents r @ (case rec_prevState r of None \<Rightarrow> [] | Some prev \<Rightarrow> diffSnapshots prev s (diffContext r))"
  by (simp add: diffPrevious_def Let_def split: option.splits)

lemma finalize_fields:
  "rec_completed (fst (finalize env r s)) = True"
  "rec_gameId (fst (finalize env r s)) = rec_gameId r"
  "rec_players (fst (finalize env r s)) = rec_players r"
  "rec_roundNumber (fst (finalize env r s)) = rec_roundNumber r"
  "rec_cardEvents (fst (finalize env r s)) = rec_cardEvents r"
  "rec_prevPhase (fst (finalize env r s)) = rec_prevPhase r"
  by (simp_all add: finalize_def Let_def)

lemma finalize_snapshots_Nil:
  "rec_snapshots r = [] \<Longrightarrow> rec_snapshots (fst (finalize env r s)) = []"
  by (simp add: finalize_def Let_def)

lemma finalize_record:
  "gr_winner (snd (finalize env r s)) =
     (if length (gs_winners s) = 1 then Some (gs_winners s ! 0) else None)"
  "gr_rounds (snd (finalize env r s)) = rec_roundNumber r"
  "gr_snapshots (snd (finalize env r s)) = rec_snapshots (fst (finalize env r s))"
  "gr_cardEvents (snd (finalize env r s)) = rec_cardEvents r"
  "gr_players (snd (finalize env r s)) = rec_players r"
  by (simp_all add: finalize_def Let_def)

lemma capturePlayers_known:
  "rec_players (capturePlayers r s) \<noteq> None \<longleftrightarrow> rec_players r \<noteq> None \<or> 2 \<le> length (gs_players s)"
proof (cases "rec_players r = None \<and> 2 \<le> length (gs_players s)")
  case False
  then show ?thesis by (auto simp: capturePlayers_def Let_def Object_keys_def)
next
  case True
  let ?ids = "Object_keys (gs_players s)"
  have len: "2 \<le> length ?ids" using True by (simp add: Object_keys_def)
  have key: "map_of (gs_players s) k \<noteq> None" if "k \<in> set ?ids" for k
    using that by (simp add: Object_keys_def map_of_eq_None_iff)
  have k0: "?ids ! 0 \<in> set ?ids" and k1: "?ids ! 1 \<in> set ?ids"
    using len by (auto intro!: nth_mem)
  define localId where "localId =
     (if truthy (rec_localPlayerId r) \<and>
          (case rec_localPlayerId r of Some l \<Rightarrow> map_of (gs_players s) l \<noteq> None | None \<Rightarrow> False)
      then (case rec_localPlayerId r of Some l \<Rightarrow> l | None \<Rightarrow> ?ids ! 0)
      else ?ids ! 0)"
  define oppId where "oppId = (case find (\<lambda>i. i \<noteq> localId) ?ids of Some i \<Rightarrow> i | None \<Rightarrow> ?ids ! 1)"
  have l: "map_of (gs_players s) localId \<noteq> None"
    unfolding localId_def using key[OF k0] by (auto split: option.splits)
  have "oppId \<in> set ?ids"
    unfolding oppId_def using k1 by (auto split: option.splits dest: find_Some_iff[THEN iffD1] simp: in_set_conv_nth)
  then have o: "map_of (gs_players s) oppId \<noteq> None" by (rule key)
  show ?thesis
    using True len l o unfolding capturePlayers_def Let_def localId_def[symmetric] oppId_def[symmetric]
    by (auto split: option.splits)
qed

lemma capturePlayers_unknown:
  "rec_players r = None \<Longrightarrow> length (gs_players s) < 2 \<Longrightarrow> rec_players (capturePlayers r s) = None"
  by (simp add: capturePlayers_def Object_keys_def)

lemma ingest_cases:
  assumes "\<not> rec_completed r" and "gs_id s = rec_gameId r"
  shows "ingest env r s =
     (if gs_winners s \<noteq> [] \<and> rec_players (atGameEndCheck env r s) \<noteq> None
      then (True, [snd (finalize env (atGameEndCheck env r s) s)], fst (finalize env (atGameEndCheck env r s) s))
      else (False, [], atGameEndCheck env r s))"
  using assms by (simp add: ingest_def atGameEndCheck_def Let_def split: prod.splits)

lemma ingest_skip:
  "rec_completed r \<Longrightarrow> ingest env r s = (True, [], r)"
  "\<not> rec_completed r \<Longrightarrow> gs_id s \<noteq> rec_gameId r \<Longrightarrow> ingest env r s = (False, [], r)"
  by (simp_all add: ingest_def)

lemmas step_fields = resolveLocalPlayer_fields capturePlayers_fields accumulateLogs_fields
  trackRound_fields diffPrevious_fields

lemma atGameEndCheck_fields:
  "rec_completed (atGameEndCheck env r s) = rec_completed r"
  "rec_gameId (atGameEndCheck env r s) = rec_gameId r"
  "rec_players (atGameEndCheck env r s) = rec_players (capturePlayers (resolveLocalPlayer r s) s)"
  "rec_prevPhase (atGameEndCheck env r s) = Some (gs_phase s)"
  "rec_localPlayerId (atGameEndCheck env r s) = rec_localPlayerId (resolveLocalPlayer r s)"
  by (simp_all add: atGameEndCheck_def step_fields)

lemma atGameEndCheck_roundNumber:
  "rec_roundNumber (atGameEndCheck env r s) =
     (if gs_phase s = Action \<and> rec_prevPhase r \<noteq> Some Action \<and>
         rec_players (capturePlayers (resolveLocalPlayer r s) s) \<noteq> None
      then max (rec_roundNumber r + 1) 1 else rec_roundNumber r)"
  by (auto simp: atGameEndCheck_def step_fields trackRound_roundNumber)

lemma atGameEndCheck_snapshots:
  "\<not> (gs_phase s = Action \<and> rec_prevPhase r \<noteq> Some Action \<and>
       rec_players (capturePlayers (resolveLocalPlayer r s) s) \<noteq> None) \<Longrightarrow>
   rec_snapshots (atGameEndCheck env r s) = rec_snapshots r"
  by (simp add: atGameEndCheck_def step_fields trackRound_snapshots_unchanged)

lemma atGameEndCheck_cardEvents:
  "rec_cardEvents (atGameEndCheck env r s) =
     rec_cardEvents r
     @ parseLogEntries env (rec_gameId r) (max 1 (rec_roundNumber r)) (gs_newMessages s)
     @ (case rec_prevState r of None \<Rightarrow> []
        | Some prev \<Rightarrow>
            diffSnapshots prev s
              \<lparr>ctx_gameId = rec_gameId r, ctx_roundNumber = rec_roundNumber (atGameEndCheck env r s),
               ctx_localPlayerId = rec_localPlayerId (resolveLocalPlayer r s)\<rparr>)"
  by (simp add: atGameEndCheck_def diffPrevious_cardEvents step_fields accumulateLogs_cardEvents
        diffContext_def split: option.splits)

lemmas ex3_defs = exTwoPlayers_def exOpponent_def exEnv_def ex2_defs

subsection \<open>Finalization\<close>

lemma ingest_callbacks:
  "ingest env r s = (d, out, r') \<Longrightarrow> out = [] \<or> (length out = 1 \<and> rec_completed r')"
  by (cases "rec_completed r"; cases "gs_id s = rec_gameId r")
     (auto simp: ingest_skip ingest_cases finalize_fields split: if_splits)

lemma ingestAll_completed: "rec_completed r \<Longrightarrow> ingestAll r calls = ([], r)"
  by (induction calls) (auto simp: ingest_skip)

lemma ingestAll_callbacks: "length (fst (ingestAll r calls)) \<le> 1"
proof (induction calls arbitrary: r)
  case Nil
  then show ?case by simp
next
  case (Cons call calls)
  obtain env s where call: "call = (env, s)" by (cases call)
  obtain d out r' where ing: "ingest env r s = (d, out, r')" by (cases "ingest env r s")
  from ingest_callbacks[OF ing] show ?case
  proof
    assume "out = []"
    then show ?thesis using Cons.IH[of r'] call ing by (simp add: case_prod_beta)
  next
    assume "length out = 1 \<and> rec_completed r'"
    then show ?thesis using call ing by (simp add: ingestAll_completed case_prod_beta)
  qed
qed

text \<open>
  C4. On a finalized recorder \<open>ingest\<close> returns true, passes nothing to the completion
  callback and leaves the recorder as it is, for any snapshot, and so does any sequence
  of further calls. Over any sequence of calls, from any recorder, the callback is
  invoked at most once.
\<close>

theorem finalized_ingest_is_noop:
  "(rec_completed r \<longrightarrow> ingest env r state = (True, [], r) \<and> ingestAll r calls = ([], r))
   \<and> length (fst (ingestAll r calls)) \<le> 1"
  using ingestAll_callbacks[of r calls] by (simp add: ingest_skip ingestAll_completed)

theorem finalized_ingest_is_noop_witness:
  "rec_completed (snd (snd (ingest exEnv (newGameRecorder ''g'' ''t0'') (exState ''p1'' exTwoPlayers Action [''Alice'']))))
   \<and> ingest exEnv
        (snd (snd (ingest exEnv (newGameRecorder ''g'' ''t0'') (exState ''p1'' exTwoPlayers Action [''Alice'']))))
        (exState ''p1'' exTwoPlayers Action [''Alice''])
      = (True, [], snd (snd (ingest exEnv (newGameRecorder ''g'' ''t0'') (exState ''p1'' exTwoPlayers Action [''Alice'']))))
   \<and> length (fst (ingestAll (newGameRecorder ''g'' ''t0'')
        [(exEnv, exState ''p1'' exTwoPlayers Action [''Alice'']),
         (exEnv, exState ''p1'' exTwoPlayers Action [''Alice''])])) = 1"
proof -
  have c: "rec_completed (snd (snd (ingest exEnv (newGameRecorder ''g'' ''t0'') (exState ''p1'' exTwoPlayers Action [''Alice'']))))"
    by code_simp
  have l: "length (fst (ingestAll (newGameRecorder ''g'' ''t0'')
        [(exEnv, exState ''p1'' exTwoPlayers Action [''Alice'']),
         (exEnv, exState ''p1'' exTwoPlayers Action [''Alice''])])) = 1"
    by code_simp
  show ?thesis
    using c l finalized_ingest_is_noop[of
        "snd (snd (ingest exEnv (newGameRecorder ''g'' ''t0'') (exState ''p1'' exTwoPlayers Action [''Alice''])))"
        exEnv "exState ''p1'' exTwoPlayers Action [''Alice'']" "[]"]
    by simp
qed

text \<open>
  C5. For a call on a recorder that is not finalized, with a snapshot of the recorder's
  game: \<open>ingest\<close> returns true exactly when the winners list is not empty and the pair
  is known at the game-end check, that is, it was captured before or the snapshot has at
  least two player keys; the recorder is finalized after the call exactly when the call
  returns true; a call that returns true passes one record to the callback, whose
  winner is the sole entry of a one-element winners list and \<open>null\<close> otherwise; a call
  that returns false passes none.
\<close>

theorem ingest_finalizes_iff:
  assumes "\<not> rec_completed r" and "gs_id state = rec_gameId r"
  shows "(fst (ingest env r state) \<longleftrightarrow>
            gs_winners state \<noteq> [] \<and> (rec_players r \<noteq> None \<or> 2 \<le> length (gs_players state)))
       \<and> (rec_completed (snd (snd (ingest env r state))) \<longleftrightarrow> fst (ingest env r state))
       \<and> (fst (ingest env r state) \<longrightarrow>
            (\<exists>record. fst (snd (ingest env r state)) = [record] \<and>
               gr_winner record =
                 (if length (gs_winners state) = 1 then Some (gs_winners state ! 0) else None)))
       \<and> (\<not> fst (ingest env r state) \<longrightarrow> fst (snd (ingest env r state)) = [])"
proof -
  have known: "rec_players (atGameEndCheck env r state) \<noteq> None \<longleftrightarrow>
                 rec_players r \<noteq> None \<or> 2 \<le> length (gs_players state)"
    using capturePlayers_known[of "resolveLocalPlayer r state" state]
    by (simp add: atGameEndCheck_fields resolveLocalPlayer_fields)
  show ?thesis
    unfolding ingest_cases[OF assms] using known assms(1)
    by (simp add: finalize_fields finalize_record atGameEndCheck_fields)
qed

theorem ingest_finalizes_iff_witness:
  "fst (ingest exEnv (newGameRecorder ''g'' ''t0'') (exState ''p1'' exTwoPlayers Action [''Alice'']))
   \<and> rec_completed (snd (snd (ingest exEnv (newGameRecorder ''g'' ''t0'')
         (exState ''p1'' exTwoPlayers Action [''Alice'']))))
   \<and> map gr_winner (fst (snd (ingest exEnv (newGameRecorder ''g'' ''t0'')
         (exState ''p1'' exTwoPlayers Action [''Alice''])))) = [Some ''Alice'']"
  using ingest_finalizes_iff[of "newGameRecorder ''g'' ''t0''"
      "exState ''p1'' exTwoPlayers Action [''Alice'']" exEnv]
  by (auto simp: newGameRecorder_def exState_def exTwoPlayers_def)

text \<open>
  C3, as the code has it. The pair is captured from any snapshot with two player keys,
  with the first key standing in for an unresolved local player, and the diff runs
  whenever a previous snapshot is stored. What holds a call back is the number of
  player keys: on a recorder that is not finalized and has no pair yet, a snapshot of
  the recorder's game with fewer than two player keys captures no pair, leaves the
  round number and the round snapshots as they are, invokes no callback and returns
  false. The events appended in the call are the log events, followed by the diff
  against the previous snapshot if one is stored.
\<close>

theorem no_pair_below_two_players:
  assumes "\<not> rec_completed r" and "gs_id state = rec_gameId r"
    and "rec_players r = None" and "length (gs_players state) < 2"
  shows "\<not> fst (ingest env r state)
       \<and> fst (snd (ingest env r state)) = []
       \<and> rec_players (snd (snd (ingest env r state))) = None
       \<and> rec_roundNumber (snd (snd (ingest env r state))) = rec_roundNumber r
       \<and> rec_snapshots (snd (snd (ingest env r state))) = rec_snapshots r
       \<and> rec_cardEvents (snd (snd (ingest env r state))) =
           rec_cardEvents r
           @ parseLogEntries env (rec_gameId r) (max 1 (rec_roundNumber r)) (gs_newMessages state)
           @ (case rec_prevState r of None \<Rightarrow> []
              | Some prev \<Rightarrow>
                  diffSnapshots prev state
                    \<lparr>ctx_gameId = rec_gameId r, ctx_roundNumber = rec_roundNumber r,
                     ctx_localPlayerId = rec_localPlayerId (resolveLocalPlayer r state)\<rparr>)"
proof -
  have none: "rec_players (capturePlayers (resolveLocalPlayer r state) state) = None"
    using assms(3,4) by (simp add: capturePlayers_unknown resolveLocalPlayer_fields)
  then have p: "rec_players (atGameEndCheck env r state) = None"
    by (simp add: atGameEndCheck_fields)
  have rn: "rec_roundNumber (atGameEndCheck env r state) = rec_roundNumber r"
    using none by (simp add: atGameEndCheck_roundNumber)
  have sn: "rec_snapshots (atGameEndCheck env r state) = rec_snapshots r"
    using none by (simp add: atGameEndCheck_snapshots)
  have ing: "ingest env r state = (False, [], atGameEndCheck env r state)"
    using p by (simp add: ingest_cases[OF assms(1,2)])
  show ?thesis
    unfolding ing using p rn sn atGameEndCheck_cardEvents[of env r state]
    by (simp split: option.splits)
qed

theorem no_pair_below_two_players_witness:
  "\<not> fst (ingest exEnv (newGameRecorder ''g'' ''t0'') (exState ''p1'' exLonePlayer Action [''Alice'']))
   \<and> rec_players (snd (snd (ingest exEnv (newGameRecorder ''g'' ''t0'')
        (exState ''p1'' exLonePlayer Action [''Alice''])))) = None
   \<and> rec_snapshots (snd (snd (ingest exEnv (newGameRecorder ''g'' ''t0'')
        (exState ''p1'' exLonePlayer Action [''Alice''])))) = []
   \<and> rec_cardEvents (snd (snd (ingest exEnv (newGameRecorder ''g'' ''t0'')
        (exState ''p1'' exLonePlayer Action [''Alice''])))) = []"
  using no_pair_below_two_players[of "newGameRecorder ''g'' ''t0''"
      "exState ''p1'' exLonePlayer Action [''Alice'']" exEnv]
  by (simp add: newGameRecorder_def exState_def exLonePlayer_def parseLogEntries_Nil)

text \<open>
  C3 as stated fails. The hint \<open>nobody\<close> matches no player, so the local player stays
  unresolved: a first snapshot with two players in the action phase and a winner still
  captures the pair \<open>(p1, p2)\<close>, captures the snapshot of round 1 and returns true; and
  with a single player key, the second of two snapshots appends the drawn event of the
  diff.
\<close>

theorem unresolved_local_player_counterexample:
  "rec_localPlayerId (newGameRecorder ''g'' ''t0'') = None
   \<and> fst (ingest exEnv (newGameRecorder ''g'' ''t0'') (exState ''nobody'' exTwoPlayers Action [''Alice'']))
   \<and> rec_localPlayerId (snd (snd (ingest exEnv (newGameRecorder ''g'' ''t0'')
        (exState ''nobody'' exTwoPlayers Action [''Alice''])))) = None
   \<and> map_option (\<lambda>(you, opp). (gp_id you, gp_id opp))
        (rec_players (snd (snd (ingest exEnv (newGameRecorder ''g'' ''t0'')
           (exState ''nobody'' exTwoPlayers Action [''Alice''])))))
      = Some (''p1'', ''p2'')
   \<and> map rs_round (rec_snapshots (snd (snd (ingest exEnv (newGameRecorder ''g'' ''t0'')
        (exState ''nobody'' exTwoPlayers Action [''Alice'']))))) = [1]
   \<and> rec_localPlayerId (snd (ingestAll (newGameRecorder ''g'' ''t0'')
        [(exEnv, exState ''nobody'' exLonePlayer Setup []),
         (exEnv, exState ''nobody'' exLonePlayerDrew Setup [])])) = None
   \<and> map ev_metric (rec_cardEvents (snd (ingestAll (newGameRecorder ''g'' ''t0'')
        [(exEnv, exState ''nobody'' exLonePlayer Setup []),
         (exEnv, exState ''nobody'' exLonePlayerDrew Setup [])]))) = [Drawn]"
  by code_simp

text \<open>
  Once captured, the player pair stays as it is over any sequence of calls.
\<close>

lemma ingest_players_fixed:
  "rec_players r = Some pp \<Longrightarrow> rec_players (snd (snd (ingest env r s))) = Some pp"
proof -
  assume pp: "rec_players r = Some pp"
  have cap: "rec_players (capturePlayers (resolveLocalPlayer r s) s) = Some pp"
    using pp by (simp add: capturePlayers_def resolveLocalPlayer_fields)
  consider "rec_completed r" | "\<not> rec_completed r" "gs_id s \<noteq> rec_gameId r"
    | "\<not> rec_completed r" "gs_id s = rec_gameId r" by blast
  then show ?thesis
  proof cases
    case 1
    then show ?thesis using pp by (simp add: ingest_skip)
  next
    case 2
    then show ?thesis using pp by (simp add: ingest_skip)
  next
    case 3
    then show ?thesis using cap
      by (simp add: ingest_cases finalize_fields atGameEndCheck_fields)
  qed
qed

lemma players_fixed_once_captured:
  "rec_players r = Some pp \<Longrightarrow> rec_players (snd (ingestAll r calls)) = Some pp"
proof (induction calls arbitrary: r)
  case Nil
  then show ?case by simp
next
  case (Cons call calls)
  obtain env s where call: "call = (env, s)" by (cases call)
  have "rec_players (snd (snd (ingest env r s))) = Some pp"
    using Cons.prems by (rule ingest_players_fixed)
  then have "rec_players (snd (ingestAll (snd (snd (ingest env r s))) calls)) = Some pp"
    by (rule Cons.IH)
  then show ?case using call by (simp add: case_prod_beta)
qed

subsection \<open>Rounds\<close>

lemma ingest_roundNumber:
  "rec_roundNumber (snd (snd (ingest env r s))) =
     (if entersAction r s then max (rec_roundNumber r + 1) 1 else rec_roundNumber r)"
proof -
  consider "rec_completed r" | "\<not> rec_completed r" "gs_id s \<noteq> rec_gameId r"
    | "\<not> rec_completed r" "gs_id s = rec_gameId r" by blast
  then show ?thesis
  proof cases
    case 1
    then show ?thesis by (simp add: ingest_skip entersAction_def)
  next
    case 2
    then show ?thesis by (simp add: ingest_skip entersAction_def)
  next
    case 3
    then show ?thesis
      by (auto simp: ingest_cases entersAction_def finalize_fields atGameEndCheck_roundNumber)
  qed
qed

lemma ingest_roundNumber_mono: "rec_roundNumber r \<le> rec_roundNumber (snd (snd (ingest env r s)))"
  by (simp add: ingest_roundNumber max_def)

lemma ingestAll_roundNumber_mono: "rec_roundNumber r \<le> rec_roundNumber (snd (ingestAll r calls))"
proof (induction calls arbitrary: r)
  case Nil
  then show ?case by simp
next
  case (Cons call calls)
  obtain env s where call: "call = (env, s)" by (cases call)
  have "rec_roundNumber r \<le> rec_roundNumber (snd (snd (ingest env r s)))"
    by (rule ingest_roundNumber_mono)
  also have "\<dots> \<le> rec_roundNumber (snd (ingestAll (snd (snd (ingest env r s))) calls))"
    by (rule Cons.IH)
  finally show ?case using call by (simp add: case_prod_beta)
qed

lemma ingestAll_append:
  "snd (ingestAll r (xs @ ys)) = snd (ingestAll (snd (ingestAll r xs)) ys)"
  by (induction xs arbitrary: r) (auto simp: case_prod_beta)

text \<open>
  C6, as the code has it. Over any sequence of \<open>ingest\<close> calls the round number never
  decreases: after a longer sequence it is at least what it was after a prefix. It is at
  least 1 from the first call that takes the round-detection branch onward, that is a
  call whose snapshot enters the action phase while the pair is known.
\<close>

theorem round_number_monotone:
  "rec_roundNumber (snd (ingestAll r calls)) \<le> rec_roundNumber (snd (ingestAll r (calls @ later)))
   \<and> (entersAction r state \<longrightarrow>
        1 \<le> rec_roundNumber (snd (ingestAll (snd (snd (ingest env r state))) calls)))"
proof -
  have "rec_roundNumber (snd (ingestAll r calls)) \<le> rec_roundNumber (snd (ingestAll r (calls @ later)))"
    unfolding ingestAll_append by (rule ingestAll_roundNumber_mono)
  moreover have "1 \<le> rec_roundNumber (snd (ingestAll (snd (snd (ingest env r state))) calls))"
    if "entersAction r state"
  proof -
    have "1 \<le> rec_roundNumber (snd (snd (ingest env r state)))"
      using that by (simp add: ingest_roundNumber)
    also have "\<dots> \<le> rec_roundNumber (snd (ingestAll (snd (snd (ingest env r state))) calls))"
      by (rule ingestAll_roundNumber_mono)
    finally show ?thesis .
  qed
  ultimately show ?thesis by blast
qed

theorem round_number_monotone_witness:
  "entersAction (newGameRecorder ''g'' ''t0'') (exState ''p1'' exTwoPlayers Action [])
   \<and> 1 \<le> rec_roundNumber (snd (ingestAll
        (snd (snd (ingest exEnv (newGameRecorder ''g'' ''t0'') (exState ''p1'' exTwoPlayers Action []))))
        [(exEnv, exState ''p1'' exTwoPlayers Regroup [])]))"
proof -
  have e: "entersAction (newGameRecorder ''g'' ''t0'') (exState ''p1'' exTwoPlayers Action [])"
    by code_simp
  show ?thesis
    using e round_number_monotone[of "newGameRecorder ''g'' ''t0''"
        "[(exEnv, exState ''p1'' exTwoPlayers Regroup [])]" "[]"
        "exState ''p1'' exTwoPlayers Action []" exEnv]
    by simp
qed

text \<open>
  C6 as stated fails. A first snapshot in the action phase with a single player key is
  processed with no pair known: the round number stays 0 and the recorded phase becomes
  action, so a following action-phase snapshot with both players is no transition and
  leaves the round number at 0 as well.
\<close>

theorem round_zero_after_action_counterexample:
  "gs_phase (exState ''p1'' exLonePlayer Action []) = Action
   \<and> gs_id (exState ''p1'' exLonePlayer Action []) = rec_gameId (newGameRecorder ''g'' ''t0'')
   \<and> rec_roundNumber (snd (snd (ingest exEnv (newGameRecorder ''g'' ''t0'')
        (exState ''p1'' exLonePlayer Action [])))) = 0
   \<and> rec_prevPhase (snd (snd (ingest exEnv (newGameRecorder ''g'' ''t0'')
        (exState ''p1'' exLonePlayer Action [])))) = Some Action
   \<and> rec_roundNumber (snd (ingestAll (newGameRecorder ''g'' ''t0'')
        [(exEnv, exState ''p1'' exLonePlayer Action []),
         (exEnv, exState ''p1'' exTwoPlayers Action [])])) = 0"
  by code_simp

lemma ingest_no_round:
  assumes "\<not> entersAction r s" and "rec_roundNumber r = 0" and "rec_snapshots r = []"
  shows "rec_roundNumber (snd (snd (ingest env r s))) = 0 \<and> rec_snapshots (snd (snd (ingest env r s))) = []
         \<and> rec_gameId (snd (snd (ingest env r s))) = rec_gameId r"
proof (cases "\<not> rec_completed r \<and> gs_id s = rec_gameId r")
  case False
  then consider "rec_completed r" | "\<not> rec_completed r" "gs_id s \<noteq> rec_gameId r" by blast
  then show ?thesis using assms by cases (simp_all add: ingest_skip)
next
  case True
  then have ne: "\<not> (gs_phase s = Action \<and> rec_prevPhase r \<noteq> Some Action \<and>
       rec_players (capturePlayers (resolveLocalPlayer r s) s) \<noteq> None)"
    using assms(1) by (simp add: entersAction_def)
  have sn: "rec_snapshots (atGameEndCheck env r s) = []"
    using atGameEndCheck_snapshots[OF ne] assms(3) by simp
  have rn: "rec_roundNumber (atGameEndCheck env r s) = 0"
    using ne assms(2) atGameEndCheck_roundNumber[of env r s] by auto
  show ?thesis
    using True sn rn
    by (simp add: ingest_cases finalize_fields finalize_snapshots_Nil atGameEndCheck_fields)
qed

lemma noRoundStarted_invariant:
  assumes "noRoundStarted r calls" and "rec_roundNumber r = 0" and "rec_snapshots r = []"
  shows "rec_roundNumber (snd (ingestAll r calls)) = 0 \<and> rec_snapshots (snd (ingestAll r calls)) = []
         \<and> rec_gameId (snd (ingestAll r calls)) = rec_gameId r"
  using assms
proof (induction calls arbitrary: r)
  case Nil
  then show ?case by simp
next
  case (Cons call calls)
  obtain env s where call: "call = (env, s)" by (cases call)
  have step: "\<not> entersAction r s" "noRoundStarted (snd (snd (ingest env r s))) calls"
    using Cons.prems(1) call by simp_all
  note one = ingest_no_round[OF step(1) Cons.prems(2,3), of env]
  have "rec_roundNumber (snd (ingestAll (snd (snd (ingest env r s))) calls)) = 0
      \<and> rec_snapshots (snd (ingestAll (snd (snd (ingest env r s))) calls)) = []
      \<and> rec_gameId (snd (ingestAll (snd (snd (ingest env r s))) calls)) = rec_gameId (snd (snd (ingest env r s)))"
    using Cons.IH[OF step(2)] one by simp
  then show ?case using call one by (simp add: case_prod_beta)
qed

lemma noRoundStarted_append:
  "noRoundStarted r (xs @ ys) \<longleftrightarrow> noRoundStarted r xs \<and> noRoundStarted (snd (ingestAll r xs)) ys"
  by (induction xs arbitrary: r) (auto simp: case_prod_beta)

text \<open>
  C10. A new recorder is fed a sequence of snapshots none of which takes the
  round-detection branch, and then, not yet finalized, a snapshot of its game with a
  non-empty winners list that does not take it either, with the pair known. The call
  returns true, finalizes the recorder and passes one record to the callback, with
  \<open>rounds = 0\<close> and no round snapshots.
\<close>

theorem finalize_before_first_round:
  assumes "noRoundStarted (newGameRecorder gameId startedAt) (calls @ [(env, state)])"
    and "r = snd (ingestAll (newGameRecorder gameId startedAt) calls)"
    and "\<not> rec_completed r"
    and "gs_id state = gameId"
    and "gs_winners state \<noteq> []"
    and "rec_players r \<noteq> None \<or> 2 \<le> length (gs_players state)"
  shows "fst (ingest env r state)
       \<and> rec_completed (snd (snd (ingest env r state)))
       \<and> map gr_rounds (fst (snd (ingest env r state))) = [0]
       \<and> map gr_snapshots (fst (snd (ingest env r state))) = [[]]"
proof -
  have fresh: "rec_roundNumber (newGameRecorder gameId startedAt) = 0"
    "rec_snapshots (newGameRecorder gameId startedAt) = []"
    "rec_gameId (newGameRecorder gameId startedAt) = gameId"
    by (simp_all add: newGameRecorder_def)
  have nrs: "noRoundStarted (newGameRecorder gameId startedAt) calls" and last: "\<not> entersAction r state"
    using assms(1,2) by (simp_all add: noRoundStarted_append)
  have inv: "rec_roundNumber r = 0" "rec_snapshots r = []" "rec_gameId r = gameId"
    using noRoundStarted_invariant[OF nrs fresh(1,2)] assms(2) fresh(3) by simp_all
  have idm: "gs_id state = rec_gameId r" using assms(4) inv(3) by simp
  have ne: "\<not> (gs_phase state = Action \<and> rec_prevPhase r \<noteq> Some Action \<and>
       rec_players (capturePlayers (resolveLocalPlayer r state) state) \<noteq> None)"
    using last assms(3) idm by (simp add: entersAction_def)
  have known: "rec_players (atGameEndCheck env r state) \<noteq> None"
    using capturePlayers_known[of "resolveLocalPlayer r state" state] assms(6)
    by (simp add: atGameEndCheck_fields resolveLocalPlayer_fields)
  have rn: "rec_roundNumber (atGameEndCheck env r state) = 0"
    using ne inv(1) atGameEndCheck_roundNumber[of env r state] by auto
  have sn: "rec_snapshots (atGameEndCheck env r state) = []"
    using atGameEndCheck_snapshots[OF ne] inv(2) by simp
  have ing: "ingest env r state =
      (True, [snd (finalize env (atGameEndCheck env r state) state)],
       fst (finalize env (atGameEndCheck env r state) state))"
    using ingest_cases[OF assms(3) idm] assms(5) known by simp
  show ?thesis
    unfolding ing using rn sn
    by (simp add: finalize_record finalize_fields finalize_snapshots_Nil)
qed

theorem finalize_before_first_round_witness:
  "fst (ingest exEnv (newGameRecorder ''g'' ''t0'') (exState ''p1'' exTwoPlayers Setup [''Alice'']))
   \<and> map gr_rounds (fst (snd (ingest exEnv (newGameRecorder ''g'' ''t0'')
        (exState ''p1'' exTwoPlayers Setup [''Alice''])))) = [0]
   \<and> map gr_snapshots (fst (snd (ingest exEnv (newGameRecorder ''g'' ''t0'')
        (exState ''p1'' exTwoPlayers Setup [''Alice''])))) = [[]]"
proof -
  have n: "noRoundStarted (newGameRecorder ''g'' ''t0'') ([] @ [(exEnv, exState ''p1'' exTwoPlayers Setup [''Alice''])])"
    by code_simp
  show ?thesis
    using finalize_before_first_round[OF n, of "newGameRecorder ''g'' ''t0''"]
    by (simp add: newGameRecorder_def exState_def exTwoPlayers_def)
qed

end
